theory Spec2Isabelle
  imports Complex_Main
begin

section \<open>The session handler of pong.js\<close>

text \<open>
  A shallow embedding of the server half of \<^verbatim>\<open>src/pong/src/pong.js\<close>
  (lines 1 to 423): the Redis client bookkeeping, the session helpers, the request
  router \<^verbatim>\<open>handleRequest\<close> and the six action handlers.

  Module variables and the Redis keyspace form the record \<open>world\<close>, passed in and
  returned by every function. A thrown exception, or a promise that rejects, is the
  \<open>Inl\<close> of a sum. What one request
  obtains from outside the file (the clock, the random identifier, the outcome of the
  connection attempt and of the Redis commands, the library functions \<^verbatim>\<open>JSON.parse\<close>
  and string conversion) is the record \<open>env\<close>.
\<close>

subsection \<open>JavaScript values\<close>

text \<open>
  A value obtained from \<^verbatim>\<open>JSON.parse\<close>. A number is kept as its exact numeric
  value. An object is the list of its own properties. \<^verbatim>\<open>undefined\<close> (also: a
  property that is not there) is \<open>None\<close> of \<open>jsval option\<close>.
\<close>

datatype jsval =
    JNull
  | JBool bool
  | JNum rat
  | JStr string
  | JArr "jsval list"
  | JObj "(string \<times> jsval) list"

text \<open>The truth value JavaScript gives a value in a condition.\<close>

fun truthy :: "jsval option \<Rightarrow> bool" where
  "truthy None = False"
| "truthy (Some JNull) = False"
| "truthy (Some (JBool b)) = b"
| "truthy (Some (JNum n)) = (n \<noteq> 0)"
| "truthy (Some (JStr s)) = (s \<noteq> [])"
| "truthy (Some (JArr xs)) = True"
| "truthy (Some (JObj kvs)) = True"

text \<open>
  \<^verbatim>\<open>v.k\<close> for a value \<open>v\<close> that is neither null nor undefined and one of the property
  names the handlers read (none of them is defined on a prototype).
\<close>

fun getProp :: "jsval \<Rightarrow> string \<Rightarrow> jsval option" where
  "getProp (JObj kvs) k = map_of kvs k"
| "getProp v k = None"

text \<open>\<^verbatim>\<open>m || d\<close> for a message \<open>m\<close> that is a string, null or undefined.\<close>

definition orElse :: "string option \<Rightarrow> string \<Rightarrow> string" where
  "orElse m d = (case m of None \<Rightarrow> d | Some s \<Rightarrow> if s = [] then d else s)"

subsection \<open>Exceptions\<close>

text \<open>
  \<open>RedisUnavailableError\<close> is the class of lines 11 to 16; \<open>Error\<close> is any other
  exception (a TypeError, a SyntaxError, an error of a Redis command). Both carry the
  exception's \<^verbatim>\<open>message\<close>.
\<close>

datatype js_error = RedisUnavailableError string | Error string

fun message :: "js_error \<Rightarrow> string" where
  "message (RedisUnavailableError m) = m"
| "message (Error m) = m"

fun instanceofRedisUnavailableError :: "js_error \<Rightarrow> bool" where
  "instanceofRedisUnavailableError (RedisUnavailableError m) = True"
| "instanceofRedisUnavailableError (Error m) = False"

text \<open>The constructor of lines 12 to 15.\<close>

definition newRedisUnavailableError :: "string option \<Rightarrow> js_error" where
  "newRedisUnavailableError m = RedisUnavailableError (orElse m ''Redis connection unavailable'')"

subsection \<open>Sessions\<close>

text \<open>
  \<^verbatim>\<open>countdownStartTime\<close> is written only by \<^verbatim>\<open>Date.now()\<close> (lines 251 and 283)
  and by \<^verbatim>\<open>null\<close> (line 391); \<^verbatim>\<open>handleCreate\<close> leaves it undefined.
\<close>

datatype start_time = TimeUndefined | TimeNull | TimeAt int

fun timeTruthy :: "start_time \<Rightarrow> bool" where
  "timeTruthy TimeUndefined = False"
| "timeTruthy TimeNull = False"
| "timeTruthy (TimeAt t) = (t \<noteq> 0)"

text \<open>
  The session object. The fields that \<^verbatim>\<open>handleUpdate\<close> copies from a request body
  hold any JSON value, or nothing (an undefined property is dropped by
  \<^verbatim>\<open>JSON.stringify\<close>). \<^verbatim>\<open>lastUpdate\<close> is always a clock reading and the two
  connection flags are always booleans.
\<close>

record session =
  ballX :: "jsval option"
  ballY :: "jsval option"
  ballVelX :: "jsval option"
  ballVelY :: "jsval option"
  ballSpeedMultiplier :: "jsval option"
  p1Y :: "jsval option"
  p2Y :: "jsval option"
  p1Score :: "jsval option"
  p2Score :: "jsval option"
  gameStarted :: "jsval option"
  winner :: "jsval option"
  countdownActive :: "jsval option"
  countdownValue :: "jsval option"
  countdownStartTime :: start_time
  readyToStart :: "jsval option"
  lastUpdate :: int
  p1Connected :: bool
  p2Connected :: bool

subsection \<open>Responses\<close>

text \<open>
  A response body is the HTML page of \<^verbatim>\<open>getGameHTML\<close> (lines 425 to 937, not
  reproduced) or the object handed to \<^verbatim>\<open>JSON.stringify\<close>, property by property.
\<close>

datatype body_value = BVal jsval | BSession session

datatype response_body = Html | Json "(string \<times> body_value) list"

record response =
  statusCode :: nat
  headers :: "(string \<times> string) list"
  body :: response_body

definition jsonResponse :: "nat \<Rightarrow> (string \<times> body_value) list \<Rightarrow> response" where
  "jsonResponse code obj =
     \<lparr>statusCode = code, headers = [(''Content-Type'', ''application/json'')], body = Json obj\<rparr>"

definition sessionNotFound :: response where
  "sessionNotFound =
     jsonResponse 404 [(''success'', BVal (JBool False)), (''error'', BVal (JStr ''Session not found''))]"

definition successResponse :: response where
  "successResponse = jsonResponse 200 [(''success'', BVal (JBool True))]"

subsection \<open>The process state and the environment of a request\<close>

text \<open>
  The module variables of lines 6 to 9 and the keys \<^verbatim>\<open>session:...\<close> of the Redis
  server. \<open>redisClient\<close> is true when the variable holds a client. The expiry of a key
  (\<^verbatim>\<open>SESSION_TTL\<close>) is not modelled.
\<close>

record world =
  redisClient :: bool
  isRedisConnected :: bool
  redisUnavailable :: bool
  redisUnavailableMessage :: "string option"
  store :: "string \<rightharpoonup> session"

text \<open>
  The outcome of \<^verbatim>\<open>redisClient.connect()\<close>: it resolves, or it rejects with an
  error whose \<^verbatim>\<open>message\<close> is given (\<open>None\<close> when it has none).
\<close>

datatype connect_outcome = Connected | ConnectFailed "string option"

text \<open>
  The outcome of a Redis command: it resolves; or the server replies with an error and
  the command rejects with it; or the connection breaks, the client emits
  \<^verbatim>\<open>'error'\<close> (handled at lines 49 to 54) and the command rejects with that error.
\<close>

datatype redis_fault = NoFault | ReplyError string | SocketError string

record env =
  connect :: connect_outcome
  getFault :: redis_fault
  setExFault :: redis_fault
  Date_now :: int
  Date_now_setSession :: int
  generateSessionId :: string
  JSON_parse :: "string \<Rightarrow> string + jsval"
  ToString :: "jsval option \<Rightarrow> string"
  TypeError_message :: "jsval option \<Rightarrow> string \<Rightarrow> string"

text \<open>
  \<open>Date_now\<close> is the reading of \<^verbatim>\<open>Date.now()\<close> in a handler,
  \<open>Date_now_setSession\<close> the later one in \<^verbatim>\<open>setSession\<close>; \<open>generateSessionId\<close> is
  the string that lines 117 to 119 build from two calls of \<^verbatim>\<open>Math.random()\<close>;
  \<open>JSON_parse s\<close> is \<open>Inl m\<close> when \<^verbatim>\<open>JSON.parse(s)\<close> throws a SyntaxError with message
  \<open>m\<close>; \<open>ToString v\<close> is the string a template literal makes of a value that is not a
  string; \<open>TypeError_message v k\<close> is the message of the TypeError that reading property
  \<open>k\<close> of the null or undefined \<open>v\<close> throws.
\<close>

subsection \<open>The Redis client (lines 18 to 94)\<close>

text \<open>The handlers of the events \<^verbatim>\<open>'error'\<close> and \<^verbatim>\<open>'connect'\<close>.\<close>

definition onError :: "string option \<Rightarrow> world \<Rightarrow> world" where
  "onError m w = w\<lparr>isRedisConnected := False, redisUnavailable := True,
     redisUnavailableMessage := Some (orElse m ''Unknown Redis error'')\<rparr>"

definition onConnect :: "world \<Rightarrow> world" where
  "onConnect w = w\<lparr>isRedisConnected := True, redisUnavailable := False,
     redisUnavailableMessage := None\<rparr>"

definition getRedisClient :: "env \<Rightarrow> world \<Rightarrow> (js_error + unit) \<times> world" where
  "getRedisClient e w =
     (if redisUnavailable w then (Inl (newRedisUnavailableError (redisUnavailableMessage w)), w)
      else if \<not> redisClient w then
        (case connect e of
           Connected \<Rightarrow> (Inr (), onConnect (w\<lparr>redisClient := True\<rparr>))
         | ConnectFailed m \<Rightarrow>
             (let msg = orElse m ''Unable to connect to Redis'';
                  w1 = w\<lparr>redisUnavailable := True, redisUnavailableMessage := Some msg,
                         redisClient := False\<rparr>
              in (Inl (newRedisUnavailableError (redisUnavailableMessage w1)), w1)))
      else (Inr (), w))"

definition redisUnavailableResponse :: "world \<Rightarrow> response" where
  "redisUnavailableResponse w =
     \<lparr>statusCode = 503, headers = [(''Content-Type'', ''application/json'')],
      body = Json [(''success'', BVal (JBool False)),
                   (''error'', BVal (JStr ''Redis connection unavailable'')),
                   (''detail'', BVal (case redisUnavailableMessage w of
                                        None \<Rightarrow> JNull | Some m \<Rightarrow> JStr m))]\<rparr>"

text \<open>\<open>Inr None\<close> is \<^verbatim>\<open>{ok: true, client}\<close>, \<open>Inr (Some r)\<close> is \<^verbatim>\<open>{ok: false, response: r}\<close>.\<close>

definition ensureRedisAvailable :: "env \<Rightarrow> world \<Rightarrow> (js_error + response option) \<times> world" where
  "ensureRedisAvailable e w =
     (case getRedisClient e w of
        (Inr client, w1) \<Rightarrow> (Inr None, w1)
      | (Inl err, w1) \<Rightarrow>
          if instanceofRedisUnavailableError err then (Inr (Some (redisUnavailableResponse w1)), w1)
          else (Inl err, w1))"

subsection \<open>Session helpers (lines 96 to 119)\<close>

definition redisCommand :: "redis_fault \<Rightarrow> world \<Rightarrow> (js_error + unit) \<times> world" where
  "redisCommand f w =
     (case f of
        NoFault \<Rightarrow> (Inr (), w)
      | ReplyError m \<Rightarrow> (Inl (Error m), w)
      | SocketError m \<Rightarrow> (Inl (Error m), onError (Some m) w))"

text \<open>The key \<^verbatim>\<open>`session:${sessionId}`\<close>.\<close>

definition sessionKey :: "env \<Rightarrow> jsval option \<Rightarrow> string" where
  "sessionKey e sessionId =
     ''session:'' @ (case sessionId of Some (JStr s) \<Rightarrow> s | _ \<Rightarrow> ToString e sessionId)"

definition getSession :: "env \<Rightarrow> jsval option \<Rightarrow> world \<Rightarrow> (js_error + session option) \<times> world" where
  "getSession e sessionId w =
     (case getRedisClient e w of
        (Inl err, w1) \<Rightarrow> (Inl err, w1)
      | (Inr client, w1) \<Rightarrow>
          (case redisCommand (getFault e) w1 of
             (Inl err, w2) \<Rightarrow> (Inl err, w2)
           | (Inr ok, w2) \<Rightarrow> (Inr (store w2 (sessionKey e sessionId)), w2)))"

text \<open>
  \<open>setSession\<close> returns the session object it was given, which it has stamped: the caller
  holds the same object.
\<close>

definition setSession :: "env \<Rightarrow> jsval option \<Rightarrow> session \<Rightarrow> world \<Rightarrow> (js_error + session) \<times> world" where
  "setSession e sessionId sessionData w =
     (case getRedisClient e w of
        (Inl err, w1) \<Rightarrow> (Inl err, w1)
      | (Inr client, w1) \<Rightarrow>
          (let sessionData1 = sessionData\<lparr>lastUpdate := Date_now_setSession e\<rparr> in
           case redisCommand (setExFault e) w1 of
             (Inl err, w2) \<Rightarrow> (Inl err, w2)
           | (Inr ok, w2) \<Rightarrow>
               (Inr sessionData1,
                w2\<lparr>store := (store w2)(sessionKey e sessionId \<mapsto> sessionData1)\<rparr>)))"

text \<open>
  \<^verbatim>\<open>body.sessionId\<close>, the first statement of five handlers: a TypeError when the body
  is null or undefined.
\<close>

definition readSessionId :: "env \<Rightarrow> jsval option \<Rightarrow> js_error + jsval option" where
  "readSessionId e b =
     (case b of
        None \<Rightarrow> Inl (Error (TypeError_message e b ''sessionId''))
      | Some JNull \<Rightarrow> Inl (Error (TypeError_message e b ''sessionId''))
      | Some v \<Rightarrow> Inr (getProp v ''sessionId''))"

text \<open>A property of a body after \<open>readSessionId\<close> has succeeded on it.\<close>

definition bodyProp :: "jsval option \<Rightarrow> string \<Rightarrow> jsval option" where
  "bodyProp b k = (case b of None \<Rightarrow> None | Some v \<Rightarrow> getProp v k)"

subsection \<open>The handlers (lines 192 to 423)\<close>

text \<open>The object literal of lines 194 to 212.\<close>

definition newSession :: "int \<Rightarrow> session" where
  "newSession now =
     \<lparr>ballX = Some (JNum 400), ballY = Some (JNum 300),
      ballVelX = Some (JNum 10), ballVelY = Some (JNum (15 / 2)),
      ballSpeedMultiplier = Some (JNum 1),
      p1Y = Some (JNum 300), p2Y = Some (JNum 300),
      p1Score = Some (JNum 0), p2Score = Some (JNum 0),
      gameStarted = Some (JBool False), winner = Some JNull,
      countdownActive = Some (JBool False), countdownValue = Some (JNum 0),
      countdownStartTime = TimeUndefined,
      readyToStart = Some (JBool False),
      lastUpdate = now, p1Connected = True, p2Connected = False\<rparr>"

definition handleCreate :: "env \<Rightarrow> world \<Rightarrow> (js_error + response) \<times> world" where
  "handleCreate e w =
     (let sessionId = generateSessionId e;
          sessionData = newSession (Date_now e)
      in case setSession e (Some (JStr sessionId)) sessionData w of
           (Inl err, w1) \<Rightarrow> (Inl err, w1)
         | (Inr stored, w1) \<Rightarrow>
             (Inr (jsonResponse 200 [(''sessionId'', BVal (JStr sessionId)),
                                     (''success'', BVal (JBool True))]), w1))"

definition handleJoin :: "env \<Rightarrow> jsval option \<Rightarrow> world \<Rightarrow> (js_error + response) \<times> world" where
  "handleJoin e b w =
     (case readSessionId e b of
        Inl err \<Rightarrow> (Inl err, w)
      | Inr joinSessionId \<Rightarrow>
          (case getSession e joinSessionId w of
             (Inl err, w1) \<Rightarrow> (Inl err, w1)
           | (Inr None, w1) \<Rightarrow> (Inr sessionNotFound, w1)
           | (Inr (Some session), w1) \<Rightarrow>
               (case setSession e joinSessionId (session\<lparr>p2Connected := True\<rparr>) w1 of
                  (Inl err, w2) \<Rightarrow> (Inl err, w2)
                | (Inr stored, w2) \<Rightarrow>
                    (Inr (jsonResponse 200 [(''success'', BVal (JBool True)),
                                            (''p2Connected'', BVal (JBool True))]), w2))))"

definition handleStart :: "env \<Rightarrow> jsval option \<Rightarrow> world \<Rightarrow> (js_error + response) \<times> world" where
  "handleStart e b w =
     (case readSessionId e b of
        Inl err \<Rightarrow> (Inl err, w)
      | Inr startSessionId \<Rightarrow>
          (case getSession e startSessionId w of
             (Inl err, w1) \<Rightarrow> (Inl err, w1)
           | (Inr None, w1) \<Rightarrow> (Inr sessionNotFound, w1)
           | (Inr (Some session), w1) \<Rightarrow>
               (case setSession e startSessionId
                       (session\<lparr>countdownActive := Some (JBool True),
                                countdownValue := Some (JNum 3),
                                countdownStartTime := TimeAt (Date_now e)\<rparr>) w1 of
                  (Inl err, w2) \<Rightarrow> (Inl err, w2)
                | (Inr stored, w2) \<Rightarrow> (Inr successResponse, w2))))"

text \<open>The assignments of lines 272 to 284.\<close>

definition resetFields :: "int \<Rightarrow> session \<Rightarrow> session" where
  "resetFields now session =
     session\<lparr>ballX := Some (JNum 400), ballY := Some (JNum 300),
             ballVelX := Some (JNum 10), ballVelY := Some (JNum (15 / 2)),
             ballSpeedMultiplier := Some (JNum 1),
             p1Score := Some (JNum 0), p2Score := Some (JNum 0),
             gameStarted := Some (JBool False), winner := Some JNull,
             countdownActive := Some (JBool True), countdownValue := Some (JNum 3),
             countdownStartTime := TimeAt now,
             readyToStart := Some (JBool False)\<rparr>"

definition handleReset :: "env \<Rightarrow> jsval option \<Rightarrow> world \<Rightarrow> (js_error + response) \<times> world" where
  "handleReset e b w =
     (case readSessionId e b of
        Inl err \<Rightarrow> (Inl err, w)
      | Inr resetSessionId \<Rightarrow>
          (case getSession e resetSessionId w of
             (Inl err, w1) \<Rightarrow> (Inl err, w1)
           | (Inr None, w1) \<Rightarrow> (Inr sessionNotFound, w1)
           | (Inr (Some session), w1) \<Rightarrow>
               (case setSession e resetSessionId (resetFields (Date_now e) session) w1 of
                  (Inl err, w2) \<Rightarrow> (Inl err, w2)
                | (Inr stored, w2) \<Rightarrow> (Inr successResponse, w2))))"

text \<open>
  The conditional assignments of lines 305 to 350, one function for each
  \<^verbatim>\<open>if\<close> statement, and \<open>updateFields\<close> for their sequence.
\<close>

definition updatePaddle :: "jsval option \<Rightarrow> session \<Rightarrow> session" where
  "updatePaddle b session =
     (if bodyProp b ''player'' = Some (JNum 1) \<and> bodyProp b ''paddleY'' \<noteq> None
      then session\<lparr>p1Y := bodyProp b ''paddleY''\<rparr>
      else if bodyProp b ''player'' = Some (JNum 2) \<and> bodyProp b ''paddleY'' \<noteq> None
      then session\<lparr>p2Y := bodyProp b ''paddleY''\<rparr>
      else session)"

definition updateBall :: "jsval option \<Rightarrow> session \<Rightarrow> session" where
  "updateBall b session =
     (if bodyProp b ''ballX'' \<noteq> None
      then session\<lparr>ballX := bodyProp b ''ballX'', ballY := bodyProp b ''ballY'',
                   ballVelX := bodyProp b ''ballVelX'', ballVelY := bodyProp b ''ballVelY''\<rparr>
      else session)"

definition updateBallSpeedMultiplier :: "jsval option \<Rightarrow> session \<Rightarrow> session" where
  "updateBallSpeedMultiplier b session =
     (if bodyProp b ''ballSpeedMultiplier'' \<noteq> None
      then session\<lparr>ballSpeedMultiplier := bodyProp b ''ballSpeedMultiplier''\<rparr>
      else session)"

definition updateP1Score :: "jsval option \<Rightarrow> session \<Rightarrow> session" where
  "updateP1Score b session =
     (if bodyProp b ''p1Score'' \<noteq> None
      then session\<lparr>p1Score := bodyProp b ''p1Score''\<rparr> else session)"

definition updateP2Score :: "jsval option \<Rightarrow> session \<Rightarrow> session" where
  "updateP2Score b session =
     (if bodyProp b ''p2Score'' \<noteq> None
      then session\<lparr>p2Score := bodyProp b ''p2Score''\<rparr> else session)"

definition updateWinner :: "jsval option \<Rightarrow> session \<Rightarrow> session" where
  "updateWinner b session =
     (if bodyProp b ''winner'' \<noteq> None
      then session\<lparr>winner := bodyProp b ''winner''\<rparr> else session)"

definition updateCountdownActive :: "jsval option \<Rightarrow> session \<Rightarrow> session" where
  "updateCountdownActive b session =
     (if bodyProp b ''countdownActive'' \<noteq> None
      then (let session1 = session\<lparr>countdownActive := bodyProp b ''countdownActive''\<rparr> in
            if bodyProp b ''countdownActive'' = Some (JBool False)
               \<and> bodyProp b ''countdownValue'' = Some (JNum 0)
            then session1\<lparr>readyToStart := Some (JBool True)\<rparr>
            else session1)
      else session)"

definition updateCountdownValue :: "jsval option \<Rightarrow> session \<Rightarrow> session" where
  "updateCountdownValue b session =
     (if bodyProp b ''countdownValue'' \<noteq> None
      then session\<lparr>countdownValue := bodyProp b ''countdownValue''\<rparr> else session)"

definition updateGameStarted :: "jsval option \<Rightarrow> session \<Rightarrow> session" where
  "updateGameStarted b session =
     (if bodyProp b ''gameStarted'' \<noteq> None
      then session\<lparr>gameStarted := bodyProp b ''gameStarted''\<rparr> else session)"

definition updateReadyToStart :: "jsval option \<Rightarrow> session \<Rightarrow> session" where
  "updateReadyToStart b session =
     (if bodyProp b ''readyToStart'' \<noteq> None
      then session\<lparr>readyToStart := bodyProp b ''readyToStart''\<rparr> else session)"

definition updateFields :: "jsval option \<Rightarrow> session \<Rightarrow> session" where
  "updateFields b session =
     (let s1 = updatePaddle b session;
          s2 = updateBall b s1;
          s3 = updateBallSpeedMultiplier b s2;
          s4 = updateP1Score b s3;
          s5 = updateP2Score b s4;
          s6 = updateWinner b s5;
          s7 = updateCountdownActive b s6;
          s8 = updateCountdownValue b s7;
          s9 = updateGameStarted b s8;
          s10 = updateReadyToStart b s9
      in s10)"

definition handleUpdate :: "env \<Rightarrow> jsval option \<Rightarrow> world \<Rightarrow> (js_error + response) \<times> world" where
  "handleUpdate e b w =
     (case readSessionId e b of
        Inl err \<Rightarrow> (Inl err, w)
      | Inr updateSessionId \<Rightarrow>
          (case getSession e updateSessionId w of
             (Inl err, w1) \<Rightarrow> (Inl err, w1)
           | (Inr None, w1) \<Rightarrow> (Inr sessionNotFound, w1)
           | (Inr (Some session), w1) \<Rightarrow>
               (case setSession e updateSessionId (updateFields b session) w1 of
                  (Inl err, w2) \<Rightarrow> (Inl err, w2)
                | (Inr stored, w2) \<Rightarrow> (Inr successResponse, w2))))"

text \<open>
  Lines 374 to 392, for a session whose countdown is running since \<open>t\<close>:
  \<^verbatim>\<open>Math.floor(elapsed / 1000)\<close> of two whole numbers of milliseconds is \<open>div\<close>.
\<close>

definition countdownFields :: "int \<Rightarrow> int \<Rightarrow> session \<Rightarrow> session" where
  "countdownFields now t session =
     (let elapsed = now - t;
          secondsElapsed = elapsed div 1000;
          newCountdownValue = (if secondsElapsed \<ge> 3 then 0 else 3 - secondsElapsed);
          s1 = (if Some (JNum (of_int newCountdownValue)) \<noteq> countdownValue session
                then session\<lparr>countdownValue := Some (JNum (of_int newCountdownValue))\<rparr>
                else session);
          s2 = (if newCountdownValue = 0
                then s1\<lparr>countdownActive := Some (JBool False),
                        readyToStart := Some (JBool True),
                        countdownStartTime := TimeNull\<rparr>
                else s1)
      in s2)"

definition stateResponse :: "session \<Rightarrow> response" where
  "stateResponse session =
     jsonResponse 200 [(''success'', BVal (JBool True)), (''state'', BSession session)]"

definition handleState :: "env \<Rightarrow> jsval option \<Rightarrow> world \<Rightarrow> (js_error + response) \<times> world" where
  "handleState e b w =
     (case readSessionId e b of
        Inl err \<Rightarrow> (Inl err, w)
      | Inr stateSessionId \<Rightarrow>
          (case getSession e stateSessionId w of
             (Inl err, w1) \<Rightarrow> (Inl err, w1)
           | (Inr None, w1) \<Rightarrow> (Inr sessionNotFound, w1)
           | (Inr (Some session), w1) \<Rightarrow>
               (if truthy (countdownActive session) \<and> timeTruthy (countdownStartTime session)
                then
                  (case countdownStartTime session of
                     TimeAt t \<Rightarrow>
                       (case setSession e stateSessionId
                               (countdownFields (Date_now e) t session) w1 of
                          (Inl err, w2) \<Rightarrow> (Inl err, w2)
                        | (Inr stored, w2) \<Rightarrow> (Inr (stateResponse stored), w2))
                   | other \<Rightarrow> (Inr (stateResponse session), w1))
                else (Inr (stateResponse session), w1))))"

subsection \<open>The router (lines 122 to 190)\<close>

text \<open>
  The URL is given by the list of its query parameters;
  \<^verbatim>\<open>urlObj.searchParams.get('action')\<close> is the value of the first one named
  \<^verbatim>\<open>action\<close>, or null.
\<close>

definition searchParamsGet :: "(string \<times> string) list \<Rightarrow> string \<Rightarrow> string option" where
  "searchParamsGet query name = map_of query name"

definition htmlResponse :: response where
  "htmlResponse = \<lparr>statusCode = 200, headers = [(''Content-Type'', ''text/html'')], body = Html\<rparr>"

definition invalidAction :: response where
  "invalidAction =
     jsonResponse 400 [(''success'', BVal (JBool False)), (''error'', BVal (JStr ''Invalid action''))]"

definition methodNotAllowed :: response where
  "methodNotAllowed =
     jsonResponse 405 [(''success'', BVal (JBool False)), (''error'', BVal (JStr ''Method not allowed''))]"

definition errorResponse :: "js_error \<Rightarrow> response" where
  "errorResponse err =
     jsonResponse 500 [(''success'', BVal (JBool False)), (''error'', BVal (JStr (message err)))]"

text \<open>
  \<^verbatim>\<open>typeof body === 'string' ? JSON.parse(body) : body\<close>
\<close>

definition parseBody :: "env \<Rightarrow> jsval option \<Rightarrow> js_error + jsval option" where
  "parseBody e b =
     (case b of
        Some (JStr s) \<Rightarrow> (case JSON_parse e s of Inl m \<Rightarrow> Inl (Error m) | Inr v \<Rightarrow> Inr (Some v))
      | other \<Rightarrow> Inr b)"

text \<open>
  The \<^verbatim>\<open>switch\<close> of lines 146 to 171. Every case returns the promise of its handler
  as it is, without \<^verbatim>\<open>await\<close>: \<open>Inl\<close> is that promise rejecting.
\<close>

definition dispatch :: "env \<Rightarrow> string option \<Rightarrow> jsval option \<Rightarrow> world \<Rightarrow> (js_error + response) \<times> world" where
  "dispatch e action requestBody w =
     (if action = Some ''create'' then handleCreate e w
      else if action = Some ''join'' then handleJoin e requestBody w
      else if action = Some ''start'' then handleStart e requestBody w
      else if action = Some ''reset'' then handleReset e requestBody w
      else if action = Some ''update'' then handleUpdate e requestBody w
      else if action = Some ''state'' then handleState e requestBody w
      else (Inr invalidAction, w))"

text \<open>The \<^verbatim>\<open>catch\<close> clause of lines 172 to 182.\<close>

definition catchClause :: "js_error \<Rightarrow> world \<Rightarrow> response" where
  "catchClause err w =
     (if instanceofRedisUnavailableError err \<or> redisUnavailable w
      then redisUnavailableResponse w
      else errorResponse err)"

text \<open>
  \<open>handleRequest\<close> is an \<^verbatim>\<open>async\<close> function: \<open>Inr r\<close> is its promise resolving with
  the response \<open>r\<close>, \<open>Inl err\<close> is its promise rejecting with \<open>err\<close>, in which case there
  is no response. Inside the \<^verbatim>\<open>try\<close> block only the awaited
  \<^verbatim>\<open>ensureRedisAvailable()\<close> and \<^verbatim>\<open>JSON.parse(body)\<close> can raise, and what they
  raise is caught. The promise of a handler is returned without \<^verbatim>\<open>await\<close>, so its
  rejection does not reach the \<^verbatim>\<open>catch\<close> clause: it is the rejection of
  \<open>handleRequest\<close>.
\<close>

definition handleRequest ::
  "env \<Rightarrow> string \<Rightarrow> (string \<times> string) list \<Rightarrow> jsval option \<Rightarrow> world
     \<Rightarrow> (js_error + response) \<times> world" where
  "handleRequest e method query b w =
     (let action = searchParamsGet query ''action'' in
      if method = ''GET'' \<and> (action = None \<or> action = Some [])
      then (Inr htmlResponse, w)
      else if method = ''POST'' then
        (case ensureRedisAvailable e w of
           (Inl err, w1) \<Rightarrow> (Inr (catchClause err w1), w1)
         | (Inr (Some unavailable), w1) \<Rightarrow> (Inr unavailable, w1)
         | (Inr None, w1) \<Rightarrow>
             (case parseBody e b of
                Inl err \<Rightarrow> (Inr (catchClause err w1), w1)
              | Inr requestBody \<Rightarrow> dispatch e action requestBody w1))
      else (Inr methodNotAllowed, w))"

subsection \<open>A reachable store, and concrete inputs\<close>

text \<open>
  During a request the store is reachable and answers: the client is not flagged
  unavailable, it is connected or the connection attempt succeeds, and the two Redis
  commands resolve.
\<close>

definition ready :: "env \<Rightarrow> world \<Rightarrow> bool" where
  "ready e w \<longleftrightarrow>
     \<not> redisUnavailable w \<and> (redisClient w \<or> connect e = Connected)
     \<and> getFault e = NoFault \<and> setExFault e = NoFault"

text \<open>The module variables after a successful \<^verbatim>\<open>getRedisClient\<close>.\<close>

definition withClient :: "world \<Rightarrow> world" where
  "withClient w = (if redisClient w then w else onConnect (w\<lparr>redisClient := True\<rparr>))"

text \<open>The module variables when the file is loaded, with an empty keyspace.\<close>

definition initialWorld :: world where
  "initialWorld =
     \<lparr>redisClient = False, isRedisConnected = False, redisUnavailable = False,
      redisUnavailableMessage = None, store = Map.empty\<rparr>"

text \<open>
  An environment for the examples: the connection and the commands succeed, and
  \<^verbatim>\<open>JSON.parse\<close> is given on the only two strings the examples parse, the empty
  object and a lone opening brace.
\<close>

definition sampleEnv :: env where
  "sampleEnv =
     \<lparr>connect = Connected, getFault = NoFault, setExFault = NoFault,
      Date_now = 1700000000000, Date_now_setSession = 1700000000001,
      generateSessionId = ''k2j8x0q7w1mz4p9d6v3nt'',
      JSON_parse = (\<lambda>s. if s = ''{}'' then Inr (JObj [])
                         else Inl ''Unexpected end of JSON input''),
      ToString = (\<lambda>v. ''undefined''),
      TypeError_message = (\<lambda>v k. ''Cannot read properties of null'')\<rparr>"

definition liveWorld :: world where
  "liveWorld =
     \<lparr>redisClient = True, isRedisConnected = True, redisUnavailable = False,
      redisUnavailableMessage = None,
      store = [''session:k2j8x0q7w1mz4p9d6v3nt'' \<mapsto> newSession 1699999990000]\<rparr>"

text \<open>A session whose countdown was started four seconds before the clock of \<open>sampleEnv\<close>.\<close>

definition countingSession :: session where
  "countingSession =
     (newSession 1699999990000)\<lparr>countdownActive := Some (JBool True),
        countdownValue := Some (JNum 3), countdownStartTime := TimeAt 1699999996000\<rparr>"

definition countingWorld :: world where
  "countingWorld = liveWorld\<lparr>store := [''session:k2j8x0q7w1mz4p9d6v3nt'' \<mapsto> countingSession]\<rparr>"

text \<open>A game in progress, stored under the identifier that \<open>sampleEnv\<close> draws.\<close>

definition busyWorld :: world where
  "busyWorld = liveWorld\<lparr>store := [''session:k2j8x0q7w1mz4p9d6v3nt'' \<mapsto>
     (newSession 1699999990000)\<lparr>p1Score := Some (JNum 2), gameStarted := Some (JBool True),
        p2Connected := True\<rparr>]\<rparr>"

text \<open>The module variables after a failed connection attempt.\<close>

definition downWorld :: world where
  "downWorld = initialWorld\<lparr>redisUnavailable := True,
     redisUnavailableMessage := Some ''connect ECONNREFUSED 127.0.0.1:6379''\<rparr>"

text \<open>Request bodies, as the objects \<^verbatim>\<open>JSON.parse\<close> gives.\<close>

definition sampleBody :: "jsval option" where
  "sampleBody = Some (JObj [(''sessionId'', JStr ''k2j8x0q7w1mz4p9d6v3nt'')])"

definition paddleBody :: "(string \<times> jsval) list" where
  "paddleBody = [(''sessionId'', JStr ''k2j8x0q7w1mz4p9d6v3nt''), (''player'', JNum 2), (''paddleY'', JNum 150)]"




definition winnerBody :: "jsval option" where
  "winnerBody = Some (JObj [(''sessionId'', JStr ''k2j8x0q7w1mz4p9d6v3nt''), (''winner'', JNum 1)])"

subsection \<open>Sequences of requests\<close>

text \<open>
  A request is what \<^verbatim>\<open>handleRequest\<close> is called with, together with the environment
  it runs in; \<open>run\<close> serves a list of requests one after the other.
\<close>

type_synonym request = "env \<times> string \<times> (string \<times> string) list \<times> jsval option"

fun run :: "world \<Rightarrow> request list \<Rightarrow> world" where
  "run w [] = w"
| "run w ((e, method, query, b) # rs) = run (snd (handleRequest e method query b w)) rs"

text \<open>A game of two requests: create, then an update that carries \<^verbatim>\<open>winner: 1\<close> only.\<close>

definition winnerGame :: "request list" where
  "winnerGame =
     [(sampleEnv, ''POST'', [(''action'', ''create'')], None),
      (sampleEnv, ''POST'', [(''action'', ''update'')], winnerBody)]"

text \<open>
  The constant of line 464, in the script that \<^verbatim>\<open>getGameHTML\<close> sends to the browser;
  the handlers never read it.
\<close>

definition WINNING_SCORE :: rat where
  "WINNING_SCORE = 3"

text \<open>The value of \<^verbatim>\<open>winner\<close> that a request hands to \<^verbatim>\<open>handleUpdate\<close>, if any.\<close>

definition suppliedWinner :: "request \<Rightarrow> jsval option" where
  "suppliedWinner r =
     (case r of (e, method, query, b) \<Rightarrow>
        if method = ''POST'' \<and> searchParamsGet query ''action'' = Some ''update''
        then (case parseBody e b of Inl err \<Rightarrow> None | Inr rb \<Rightarrow> bodyProp rb ''winner'')
        else None)"

text \<open>The winner of a session is null or one of the values \<open>V\<close>.\<close>

definition winnerFrom :: "jsval option set \<Rightarrow> session \<Rightarrow> bool" where
  "winnerFrom V s \<longleftrightarrow> winner s = Some JNull \<or> (winner s \<noteq> None \<and> winner s \<in> V)"

definition storeInv :: "(session \<Rightarrow> bool) \<Rightarrow> world \<Rightarrow> bool" where
  "storeInv P w \<longleftrightarrow> (\<forall>k s. store w k = Some s \<longrightarrow> P s)"

subsection \<open>The sparse patch of an update, as a relation\<close>

text \<open>
  \<open>patch supplied old\<close> is the supplied value when there is one and the old value
  otherwise. \<open>sparsePatch b s s'\<close> relates a session \<open>s\<close> to the session \<open>s'\<close> that a patch
  with body \<open>b\<close> makes of it: seven fields are patched one by one;
  \<^verbatim>\<open>readyToStart\<close> is patched too and, when not supplied, becomes true if the
  body says that the countdown is over; \<^verbatim>\<open>paddleY\<close> goes to the paddle of the player named; the four
  ball fields are patched as a group that \<^verbatim>\<open>ballX\<close> announces (nothing is said of a
  group that is announced but incomplete); the other fields stay.
\<close>

definition patch :: "jsval option \<Rightarrow> jsval option \<Rightarrow> jsval option" where
  "patch supplied old = (case supplied of Some v \<Rightarrow> Some v | None \<Rightarrow> old)"



section \<open>Properties\<close>

subsection \<open>Auxiliary facts\<close>

lemma withClient_simps:
  "redisClient (withClient w)"
  "\<not> redisUnavailable w \<Longrightarrow> \<not> redisUnavailable (withClient w)"
  "store (withClient w) = store w"
  by (simp_all add: withClient_def onConnect_def)

lemma getRedisClient_up:
  "redisClient w \<Longrightarrow> \<not> redisUnavailable w \<Longrightarrow> getRedisClient e w = (Inr (), w)"
  by (simp add: getRedisClient_def)

lemma ensureRedisAvailable_ready:
  "ready e w \<Longrightarrow> ensureRedisAvailable e w = (Inr None, withClient w)"
  by (auto simp: ready_def ensureRedisAvailable_def getRedisClient_def withClient_def)

lemma getSession_up:
  "redisClient w \<Longrightarrow> \<not> redisUnavailable w \<Longrightarrow> getFault e = NoFault \<Longrightarrow>
   getSession e sid w = (Inr (store w (sessionKey e sid)), w)"
  by (simp add: getSession_def getRedisClient_up redisCommand_def)

lemma setSession_up:
  "redisClient w \<Longrightarrow> \<not> redisUnavailable w \<Longrightarrow> setExFault e = NoFault \<Longrightarrow>
   setSession e sid s w =
     (Inr (s\<lparr>lastUpdate := Date_now_setSession e\<rparr>),
      w\<lparr>store := (store w)(sessionKey e sid \<mapsto> s\<lparr>lastUpdate := Date_now_setSession e\<rparr>)\<rparr>)"
  by (simp add: setSession_def getRedisClient_up redisCommand_def Let_def)

lemma handleRequest_ready:
  assumes "ready e w" and "parseBody e b = Inr rb"
  shows "handleRequest e ''POST'' query b w
           = dispatch e (searchParamsGet query ''action'') rb (withClient w)"
  using assms by (simp add: handleRequest_def ensureRedisAvailable_ready)

lemma ready_withClient:
  "ready e w \<Longrightarrow> redisClient (withClient w) \<and> \<not> redisUnavailable (withClient w)
     \<and> getFault e = NoFault \<and> setExFault e = NoFault"
  by (simp add: ready_def withClient_simps)

lemma handleCreate_up:
  assumes "redisClient w" "\<not> redisUnavailable w" "setExFault e = NoFault"
  shows "handleCreate e w =
     (Inr (jsonResponse 200 [(''sessionId'', BVal (JStr (generateSessionId e))),
                             (''success'', BVal (JBool True))]),
      w\<lparr>store := (store w)(''session:'' @ generateSessionId e \<mapsto>
            (newSession (Date_now e))\<lparr>lastUpdate := Date_now_setSession e\<rparr>)\<rparr>)"
  using assms by (simp add: handleCreate_def setSession_up sessionKey_def Let_def)

lemma handleJoin_up:
  assumes "redisClient w" "\<not> redisUnavailable w" "getFault e = NoFault" "setExFault e = NoFault"
    and "readSessionId e rb = Inr sid" and "store w (sessionKey e sid) = Some s"
  shows "handleJoin e rb w =
     (Inr (jsonResponse 200 [(''success'', BVal (JBool True)), (''p2Connected'', BVal (JBool True))]),
      w\<lparr>store := (store w)(sessionKey e sid \<mapsto>
            s\<lparr>p2Connected := True, lastUpdate := Date_now_setSession e\<rparr>)\<rparr>)"
  using assms by (simp add: handleJoin_def getSession_up setSession_up)

lemma handleStart_up:
  assumes "redisClient w" "\<not> redisUnavailable w" "getFault e = NoFault" "setExFault e = NoFault"
    and "readSessionId e rb = Inr sid" and "store w (sessionKey e sid) = Some s"
  shows "handleStart e rb w =
     (Inr successResponse,
      w\<lparr>store := (store w)(sessionKey e sid \<mapsto>
            s\<lparr>countdownActive := Some (JBool True), countdownValue := Some (JNum 3),
              countdownStartTime := TimeAt (Date_now e),
              lastUpdate := Date_now_setSession e\<rparr>)\<rparr>)"
  using assms by (simp add: handleStart_def getSession_up setSession_up)

lemma handleReset_up:
  assumes "redisClient w" "\<not> redisUnavailable w" "getFault e = NoFault" "setExFault e = NoFault"
    and "readSessionId e rb = Inr sid" and "store w (sessionKey e sid) = Some s"
  shows "handleReset e rb w =
     (Inr successResponse,
      w\<lparr>store := (store w)(sessionKey e sid \<mapsto>
            (resetFields (Date_now e) s)\<lparr>lastUpdate := Date_now_setSession e\<rparr>)\<rparr>)"
  using assms by (simp add: handleReset_def getSession_up setSession_up)

lemma handleUpdate_up:
  assumes "redisClient w" "\<not> redisUnavailable w" "getFault e = NoFault" "setExFault e = NoFault"
    and "readSessionId e rb = Inr sid" and "store w (sessionKey e sid) = Some s"
  shows "handleUpdate e rb w =
     (Inr successResponse,
      w\<lparr>store := (store w)(sessionKey e sid \<mapsto>
            (updateFields rb s)\<lparr>lastUpdate := Date_now_setSession e\<rparr>)\<rparr>)"
  using assms by (simp add: handleUpdate_def getSession_up setSession_up)

lemma handleState_up:
  assumes "redisClient w" "\<not> redisUnavailable w" "getFault e = NoFault" "setExFault e = NoFault"
    and "readSessionId e rb = Inr sid" and "store w (sessionKey e sid) = Some s"
  shows "handleState e rb w =
     (if truthy (countdownActive s) \<and> timeTruthy (countdownStartTime s)
      then (case countdownStartTime s of
              TimeAt t \<Rightarrow>
                (Inr (stateResponse ((countdownFields (Date_now e) t s)\<lparr>lastUpdate := Date_now_setSession e\<rparr>)),
                 w\<lparr>store := (store w)(sessionKey e sid \<mapsto>
                      (countdownFields (Date_now e) t s)\<lparr>lastUpdate := Date_now_setSession e\<rparr>)\<rparr>)
            | other \<Rightarrow> (Inr (stateResponse s), w))
      else (Inr (stateResponse s), w))"
  using assms by (simp add: handleState_def getSession_up setSession_up split: start_time.splits)

subsection \<open>A POST request against a reachable store\<close>

text \<open>What each action returns and stores when the store answers and the session exists.\<close>

lemma post_create:
  assumes "ready e w" and "searchParamsGet query ''action'' = Some ''create''"
    and "parseBody e b = Inr rb"
  shows "handleRequest e ''POST'' query b w =
     (Inr (jsonResponse 200 [(''sessionId'', BVal (JStr (generateSessionId e))),
                        (''success'', BVal (JBool True))]),
      (withClient w)\<lparr>store := (store w)(''session:'' @ generateSessionId e \<mapsto>
            (newSession (Date_now e))\<lparr>lastUpdate := Date_now_setSession e\<rparr>)\<rparr>)"
proof -
  note c = ready_withClient [OF assms(1)]
  have "handleCreate e (withClient w) =
     (Inr (jsonResponse 200 [(''sessionId'', BVal (JStr (generateSessionId e))),
                        (''success'', BVal (JBool True))]),
      (withClient w)\<lparr>store := (store w)(''session:'' @ generateSessionId e \<mapsto>
            (newSession (Date_now e))\<lparr>lastUpdate := Date_now_setSession e\<rparr>)\<rparr>)"
    using c by (simp add: handleCreate_up withClient_simps)
  then show ?thesis
    using assms(1,2,3) by (simp add: handleRequest_ready dispatch_def)
qed

lemma post_join:
  assumes "ready e w" and "searchParamsGet query ''action'' = Some ''join''"
    and "parseBody e b = Inr rb" and "readSessionId e rb = Inr sid"
    and "store w (sessionKey e sid) = Some s"
  shows "handleRequest e ''POST'' query b w =
     (Inr (jsonResponse 200 [(''success'', BVal (JBool True)), (''p2Connected'', BVal (JBool True))]),
      (withClient w)\<lparr>store := (store w)(sessionKey e sid \<mapsto>
            s\<lparr>p2Connected := True, lastUpdate := Date_now_setSession e\<rparr>)\<rparr>)"
proof -
  note c = ready_withClient [OF assms(1)]
  have "store (withClient w) (sessionKey e sid) = Some s"
    using assms(5) by (simp add: withClient_simps)
  then have "handleJoin e rb (withClient w) =
     (Inr (jsonResponse 200 [(''success'', BVal (JBool True)), (''p2Connected'', BVal (JBool True))]),
      (withClient w)\<lparr>store := (store w)(sessionKey e sid \<mapsto>
            s\<lparr>p2Connected := True, lastUpdate := Date_now_setSession e\<rparr>)\<rparr>)"
    using c assms(4) by (simp add: handleJoin_up withClient_simps)
  then show ?thesis
    using assms(1,2,3) by (simp add: handleRequest_ready dispatch_def)
qed

lemma post_start:
  assumes "ready e w" and "searchParamsGet query ''action'' = Some ''start''"
    and "parseBody e b = Inr rb" and "readSessionId e rb = Inr sid"
    and "store w (sessionKey e sid) = Some s"
  shows "handleRequest e ''POST'' query b w =
     (Inr successResponse,
      (withClient w)\<lparr>store := (store w)(sessionKey e sid \<mapsto>
            s\<lparr>countdownActive := Some (JBool True), countdownValue := Some (JNum 3),
              countdownStartTime := TimeAt (Date_now e),
              lastUpdate := Date_now_setSession e\<rparr>)\<rparr>)"
proof -
  note c = ready_withClient [OF assms(1)]
  have "store (withClient w) (sessionKey e sid) = Some s"
    using assms(5) by (simp add: withClient_simps)
  then have "handleStart e rb (withClient w) =
     (Inr successResponse,
      (withClient w)\<lparr>store := (store w)(sessionKey e sid \<mapsto>
            s\<lparr>countdownActive := Some (JBool True), countdownValue := Some (JNum 3),
              countdownStartTime := TimeAt (Date_now e),
              lastUpdate := Date_now_setSession e\<rparr>)\<rparr>)"
    using c assms(4) by (simp add: handleStart_up withClient_simps)
  then show ?thesis
    using assms(1,2,3) by (simp add: handleRequest_ready dispatch_def)
qed

lemma post_reset:
  assumes "ready e w" and "searchParamsGet query ''action'' = Some ''reset''"
    and "parseBody e b = Inr rb" and "readSessionId e rb = Inr sid"
    and "store w (sessionKey e sid) = Some s"
  shows "handleRequest e ''POST'' query b w =
     (Inr successResponse,
      (withClient w)\<lparr>store := (store w)(sessionKey e sid \<mapsto>
            (resetFields (Date_now e) s)\<lparr>lastUpdate := Date_now_setSession e\<rparr>)\<rparr>)"
proof -
  note c = ready_withClient [OF assms(1)]
  have "store (withClient w) (sessionKey e sid) = Some s"
    using assms(5) by (simp add: withClient_simps)
  then have "handleReset e rb (withClient w) =
     (Inr successResponse,
      (withClient w)\<lparr>store := (store w)(sessionKey e sid \<mapsto>
            (resetFields (Date_now e) s)\<lparr>lastUpdate := Date_now_setSession e\<rparr>)\<rparr>)"
    using c assms(4) by (simp add: handleReset_up withClient_simps)
  then show ?thesis
    using assms(1,2,3) by (simp add: handleRequest_ready dispatch_def)
qed

lemma post_update:
  assumes "ready e w" and "searchParamsGet query ''action'' = Some ''update''"
    and "parseBody e b = Inr rb" and "readSessionId e rb = Inr sid"
    and "store w (sessionKey e sid) = Some s"
  shows "handleRequest e ''POST'' query b w =
     (Inr successResponse,
      (withClient w)\<lparr>store := (store w)(sessionKey e sid \<mapsto>
            (updateFields rb s)\<lparr>lastUpdate := Date_now_setSession e\<rparr>)\<rparr>)"
proof -
  note c = ready_withClient [OF assms(1)]
  have "store (withClient w) (sessionKey e sid) = Some s"
    using assms(5) by (simp add: withClient_simps)
  then have "handleUpdate e rb (withClient w) =
     (Inr successResponse,
      (withClient w)\<lparr>store := (store w)(sessionKey e sid \<mapsto>
            (updateFields rb s)\<lparr>lastUpdate := Date_now_setSession e\<rparr>)\<rparr>)"
    using c assms(4) by (simp add: handleUpdate_up withClient_simps)
  then show ?thesis
    using assms(1,2,3) by (simp add: handleRequest_ready dispatch_def)
qed

lemma post_state:
  assumes "ready e w" and "searchParamsGet query ''action'' = Some ''state''"
    and "parseBody e b = Inr rb" and "readSessionId e rb = Inr sid"
    and "store w (sessionKey e sid) = Some s"
  shows "handleRequest e ''POST'' query b w =
     (if truthy (countdownActive s) \<and> timeTruthy (countdownStartTime s)
      then (case countdownStartTime s of
              TimeAt t \<Rightarrow>
                (Inr (stateResponse ((countdownFields (Date_now e) t s)\<lparr>lastUpdate := Date_now_setSession e\<rparr>)),
                 (withClient w)\<lparr>store := (store w)(sessionKey e sid \<mapsto>
                      (countdownFields (Date_now e) t s)\<lparr>lastUpdate := Date_now_setSession e\<rparr>)\<rparr>)
            | other \<Rightarrow> (Inr (stateResponse s), withClient w))
      else (Inr (stateResponse s), withClient w))"
proof -
  note c = ready_withClient [OF assms(1)]
  have "store (withClient w) (sessionKey e sid) = Some s"
    using assms(5) by (simp add: withClient_simps)
  then have "handleState e rb (withClient w) = 
     (if truthy (countdownActive s) \<and> timeTruthy (countdownStartTime s)
      then (case countdownStartTime s of
              TimeAt t \<Rightarrow>
                (Inr (stateResponse ((countdownFields (Date_now e) t s)\<lparr>lastUpdate := Date_now_setSession e\<rparr>)),
                 (withClient w)\<lparr>store := (store w)(sessionKey e sid \<mapsto>
                      (countdownFields (Date_now e) t s)\<lparr>lastUpdate := Date_now_setSession e\<rparr>)\<rparr>)
            | other \<Rightarrow> (Inr (stateResponse s), withClient w))
      else (Inr (stateResponse s), withClient w))"
    using c assms(4) by (simp add: handleState_up withClient_simps split: start_time.splits)
  then show ?thesis
    using assms(1,2,3)
    by (simp add: handleRequest_ready dispatch_def split: start_time.splits)
qed

subsection \<open>Facts about the concrete inputs\<close>

lemma sample_ready: "ready sampleEnv liveWorld" "ready sampleEnv countingWorld" "ready sampleEnv initialWorld"
  by (simp_all add: ready_def sampleEnv_def liveWorld_def countingWorld_def initialWorld_def)

lemma sample_parse: "parseBody sampleEnv sampleBody = Inr sampleBody"
  by (simp add: parseBody_def sampleBody_def)

lemma sample_sessionId:
  "readSessionId sampleEnv sampleBody = Inr (Some (JStr ''k2j8x0q7w1mz4p9d6v3nt''))"
  by (simp add: readSessionId_def sampleBody_def)

lemma sample_key:
  "sessionKey e (Some (JStr ''k2j8x0q7w1mz4p9d6v3nt'')) = ''session:k2j8x0q7w1mz4p9d6v3nt''"
  by (simp add: sessionKey_def)

lemma sample_action: "searchParamsGet [(''action'', a)] ''action'' = Some a"
  by (simp add: searchParamsGet_def)


subsection \<open>Requests that are not POST\<close>

text \<open>
  C10. A GET request whose URL has a non-empty \<^verbatim>\<open>action\<close> parameter gets neither the
  HTML page nor the 400 response for an invalid action: it gets the 405 response, whatever
  the action is, and nothing changes.
\<close>

theorem get_with_action_is_405:
  assumes "searchParamsGet query ''action'' = Some a" and "a \<noteq> []"
  shows "handleRequest e ''GET'' query b w = (Inr methodNotAllowed, w)
         \<and> methodNotAllowed = \<lparr>statusCode = 405, headers = [(''Content-Type'', ''application/json'')],
              body = Json [(''success'', BVal (JBool False)), (''error'', BVal (JStr ''Method not allowed''))]\<rparr>
         \<and> statusCode methodNotAllowed = 405
         \<and> body methodNotAllowed \<noteq> Html
         \<and> methodNotAllowed \<noteq> invalidAction"
  using assms
  by (simp add: handleRequest_def methodNotAllowed_def invalidAction_def jsonResponse_def)

theorem get_with_action_is_405_witness:
  "searchParamsGet [(''action'', ''create'')] ''action'' = Some ''create''
   \<and> ''create'' \<noteq> []
   \<and> handleRequest sampleEnv ''GET'' [(''action'', ''create'')] None initialWorld
       = (Inr methodNotAllowed, initialWorld)"
proof -
  have h1: "searchParamsGet [(''action'', ''create'')] ''action'' = Some ''create''"
    by (simp add: searchParamsGet_def)
  have h2: "''create'' \<noteq> []" by simp
  from get_with_action_is_405 [OF h1 h2, of sampleEnv None initialWorld]
  have c: "handleRequest sampleEnv ''GET'' [(''action'', ''create'')] None initialWorld
             = (Inr methodNotAllowed, initialWorld)"
    by blast
  from h1 h2 c show ?thesis by blast
qed

subsection \<open>The unreachable store\<close>

text \<open>
  C2. When the client is flagged unavailable, or there is no client and the connection
  attempt fails, a POST request gets the 503 response with \<^verbatim>\<open>success\<close>,
  \<^verbatim>\<open>error\<close> and \<^verbatim>\<open>detail\<close>, whatever its action and body are, and the keys of the
  store are as before: the operation is not attempted, and the status is neither 404 nor
  500.
\<close>

theorem unreachable_store_is_503:
  assumes "redisUnavailable w \<or> (\<not> redisClient w \<and> connect e = ConnectFailed m)"
  shows "\<exists>r w1. handleRequest e ''POST'' query b w = (Inr r, w1)
         \<and> statusCode r = 503
         \<and> body r = Json [(''success'', BVal (JBool False)),
                           (''error'', BVal (JStr ''Redis connection unavailable'')),
                           (''detail'', BVal (case redisUnavailableMessage w1 of
                                                None \<Rightarrow> JNull | Some d \<Rightarrow> JStr d))]
         \<and> store w1 = store w
         \<and> redisUnavailable w1"
  using assms
  by (auto simp: handleRequest_def ensureRedisAvailable_def getRedisClient_def
      newRedisUnavailableError_def redisUnavailableResponse_def Let_def)

theorem unreachable_store_is_503_witness:
  "(redisUnavailable downWorld \<or> (\<not> redisClient downWorld \<and> connect sampleEnv = ConnectFailed None))
   \<and> (\<exists>r w1. handleRequest sampleEnv ''POST'' [(''action'', ''create'')] None downWorld = (Inr r, w1)
         \<and> statusCode r = 503)"
proof -
  have h: "redisUnavailable downWorld \<or> (\<not> redisClient downWorld \<and> connect sampleEnv = ConnectFailed None)"
    by (simp add: downWorld_def)
  from unreachable_store_is_503 [OF h, of "[(''action'', ''create'')]" None]
  have c: "\<exists>r w1. handleRequest sampleEnv ''POST'' [(''action'', ''create'')] None downWorld = (Inr r, w1)
         \<and> statusCode r = 503"
    by blast
  from h c show ?thesis by blast
qed

subsection \<open>Unexpected exceptions\<close>

text \<open>
  C9, as stated, fails: the 500 response carries the message of the exception that was
  caught. A request whose body is the string \<^verbatim>\<open>{\<close> gets a body whose \<^verbatim>\<open>error\<close>
  is the text of the SyntaxError that \<^verbatim>\<open>JSON.parse\<close> raised.
\<close>

theorem exception_message_in_500_body:
  "handleRequest sampleEnv ''POST'' [(''action'', ''join'')] (Some (JStr ''{'')) liveWorld
     = (Inr \<lparr>statusCode = 500, headers = [(''Content-Type'', ''application/json'')],
              body = Json [(''success'', BVal (JBool False)), (''error'', BVal (JStr ''Unexpected end of JSON input''))]\<rparr>,
        liveWorld)"
  by (simp add: handleRequest_def ensureRedisAvailable_def getRedisClient_def
      parseBody_def catchClause_def errorResponse_def jsonResponse_def searchParamsGet_def
      sampleEnv_def liveWorld_def)

text \<open>
  Inside the \<^verbatim>\<open>try\<close> block \<^verbatim>\<open>ensureRedisAvailable\<close> never raises: it turns the
  only exception \<^verbatim>\<open>getRedisClient\<close> has into the 503 response. With a reachable store
  the \<^verbatim>\<open>catch\<close> clause is therefore entered by a failing \<^verbatim>\<open>JSON.parse\<close> only.
\<close>

lemma ensureRedisAvailable_never_raises: "fst (ensureRedisAvailable e w) \<noteq> Inl err"
  by (auto simp: ensureRedisAvailable_def getRedisClient_def newRedisUnavailableError_def Let_def
      split: connect_outcome.splits)

text \<open>
  An exception raised inside a handler is not caught: with a null body,
  \<^verbatim>\<open>handleJoin\<close> rejects with the TypeError and so does \<open>handleRequest\<close>.
\<close>

lemma handler_rejection_is_not_caught:
  "fst (handleRequest sampleEnv ''POST'' [(''action'', ''join'')] (Some JNull) liveWorld)
     = Inl (Error ''Cannot read properties of null'')"
  by (simp add: handleRequest_def ensureRedisAvailable_def getRedisClient_def parseBody_def
      dispatch_def handleJoin_def readSessionId_def searchParamsGet_def sampleEnv_def
      liveWorld_def)

text \<open>
  C9, amended. When the store is reachable and the body of a POST request is a string
  that \<^verbatim>\<open>JSON.parse\<close> rejects, whatever the action is, the exception is caught and
  the response is the 500 response whose \<^verbatim>\<open>error\<close> is the message of that exception.
\<close>

theorem caught_exception_is_500:
  assumes "\<not> redisUnavailable w" and "redisClient w \<or> connect e = Connected"
    and "JSON_parse e text = Inl m"
  shows "handleRequest e ''POST'' query (Some (JStr text)) w
           = (Inr \<lparr>statusCode = 500, headers = [(''Content-Type'', ''application/json'')],
              body = Json [(''success'', BVal (JBool False)), (''error'', BVal (JStr m))]\<rparr>,
              withClient w)"
proof -
  have en: "ensureRedisAvailable e w = (Inr None, withClient w)"
    using assms(1,2)
    by (auto simp: ensureRedisAvailable_def getRedisClient_def withClient_def)
  have p: "parseBody e (Some (JStr text)) = Inl (Error m)"
    using assms(3) by (simp add: parseBody_def)
  have u: "\<not> redisUnavailable (withClient w)"
    using assms(1) by (simp add: withClient_simps)
  show ?thesis
    using u by (simp add: handleRequest_def en p catchClause_def errorResponse_def jsonResponse_def)
qed

theorem caught_exception_is_500_witness:
  "\<not> redisUnavailable liveWorld
   \<and> (redisClient liveWorld \<or> connect sampleEnv = Connected)
   \<and> JSON_parse sampleEnv ''{'' = Inl ''Unexpected end of JSON input''
   \<and> handleRequest sampleEnv ''POST'' [(''action'', ''state'')] (Some (JStr ''{'')) liveWorld
       = (Inr \<lparr>statusCode = 500, headers = [(''Content-Type'', ''application/json'')],
              body = Json [(''success'', BVal (JBool False)), (''error'', BVal (JStr ''Unexpected end of JSON input''))]\<rparr>,
          withClient liveWorld)"
proof -
  have h1: "\<not> redisUnavailable liveWorld" by (simp add: liveWorld_def)
  have h2: "redisClient liveWorld \<or> connect sampleEnv = Connected" by (simp add: liveWorld_def)
  have h3: "JSON_parse sampleEnv ''{'' = Inl ''Unexpected end of JSON input''"
    by (simp add: sampleEnv_def)
  note c = caught_exception_is_500 [OF h1 h2 h3, of "[(''action'', ''state'')]"]
  from h1 h2 h3 c show ?thesis by blast
qed

subsection \<open>The countdown\<close>

lemma countdownFields_value:
  "countdownValue (countdownFields now t s) = Some (JNum (of_int (max 0 (3 - (now - t) div 1000))))"
  by (auto simp: countdownFields_def Let_def max_def)

lemma countdownFields_zero:
  "max 0 (3 - (now - t) div 1000) = 0 \<Longrightarrow>
   countdownActive (countdownFields now t s) = Some (JBool False)
   \<and> readyToStart (countdownFields now t s) = Some (JBool True)
   \<and> countdownStartTime (countdownFields now t s) = TimeNull"
  by (auto simp: countdownFields_def Let_def max_def)

text \<open>
  C1. For a session whose \<^verbatim>\<open>countdownActive\<close> is true (truthy) and whose
  \<^verbatim>\<open>countdownStartTime\<close> is a clock reading \<open>t\<close> (a reading is not 0), the state
  operation sets \<^verbatim>\<open>countdownValue\<close> to \<open>max 0 (3 - (now - t) div 1000)\<close>, which is not
  negative; when that value is 0 it also sets \<^verbatim>\<open>countdownActive\<close> to false,
  \<^verbatim>\<open>readyToStart\<close> to true and \<^verbatim>\<open>countdownStartTime\<close> to null; it stores the
  session and returns the session it stored.
\<close>

theorem state_resolves_countdown:
  assumes "ready e w" and "searchParamsGet query ''action'' = Some ''state''"
    and "parseBody e b = Inr rb" and "readSessionId e rb = Inr sid"
    and "store w (sessionKey e sid) = Some s"
    and "truthy (countdownActive s)" and "countdownStartTime s = TimeAt t" and "t \<noteq> 0"
  shows "\<exists>s' v. v = max 0 (3 - (Date_now e - t) div 1000)
           \<and> 0 \<le> v
           \<and> countdownValue s' = Some (JNum (of_int v))
           \<and> (v = 0 \<longrightarrow> countdownActive s' = Some (JBool False)
                        \<and> readyToStart s' = Some (JBool True)
                        \<and> countdownStartTime s' = TimeNull)
           \<and> fst (handleRequest e ''POST'' query b w)
               = Inr \<lparr>statusCode = 200, headers = [(''Content-Type'', ''application/json'')],
              body = Json [(''success'', BVal (JBool True)), (''state'', BSession s')]\<rparr>
           \<and> store (snd (handleRequest e ''POST'' query b w)) (sessionKey e sid) = Some s'"
proof -
  let ?s' = "(countdownFields (Date_now e) t s)\<lparr>lastUpdate := Date_now_setSession e\<rparr>"
  have r: "handleRequest e ''POST'' query b w =
      (Inr (stateResponse ?s'), (withClient w)\<lparr>store := (store w)(sessionKey e sid \<mapsto> ?s')\<rparr>)"
    using assms(6,7,8) by (simp add: post_state [OF assms(1-5)])
  have v: "countdownValue ?s' = Some (JNum (of_int (max 0 (3 - (Date_now e - t) div 1000))))"
    by (simp add: countdownFields_value)
  have z: "max 0 (3 - (Date_now e - t) div 1000) = 0 \<longrightarrow>
      countdownActive ?s' = Some (JBool False) \<and> readyToStart ?s' = Some (JBool True)
      \<and> countdownStartTime ?s' = TimeNull"
    using countdownFields_zero [of "Date_now e" t s] by simp
  have n: "(0::int) \<le> max 0 (3 - (Date_now e - t) div 1000)" by simp
  have f: "fst (handleRequest e ''POST'' query b w)
               = Inr \<lparr>statusCode = 200, headers = [(''Content-Type'', ''application/json'')],
              body = Json [(''success'', BVal (JBool True)), (''state'', BSession ?s')]\<rparr>"
    and st: "store (snd (handleRequest e ''POST'' query b w)) (sessionKey e sid) = Some ?s'"
    by (simp_all add: r stateResponse_def jsonResponse_def)
  from n v z f st show ?thesis by blast
qed

theorem state_resolves_countdown_witness:
  "ready sampleEnv countingWorld
   \<and> searchParamsGet [(''action'', ''state'')] ''action'' = Some ''state''
   \<and> parseBody sampleEnv sampleBody = Inr sampleBody
   \<and> readSessionId sampleEnv sampleBody = Inr (Some (JStr ''k2j8x0q7w1mz4p9d6v3nt''))
   \<and> store countingWorld (sessionKey sampleEnv (Some (JStr ''k2j8x0q7w1mz4p9d6v3nt''))) = Some countingSession
   \<and> truthy (countdownActive countingSession)
   \<and> countdownStartTime countingSession = TimeAt 1699999996000
   \<and> (1699999996000 :: int) \<noteq> 0
   \<and> (\<exists>s'. countdownValue s' = Some (JNum 0) \<and> countdownActive s' = Some (JBool False)
          \<and> readyToStart s' = Some (JBool True) \<and> countdownStartTime s' = TimeNull
          \<and> fst (handleRequest sampleEnv ''POST'' [(''action'', ''state'')] sampleBody countingWorld)
              = Inr \<lparr>statusCode = 200, headers = [(''Content-Type'', ''application/json'')],
              body = Json [(''success'', BVal (JBool True)), (''state'', BSession s')]\<rparr>
          \<and> store (snd (handleRequest sampleEnv ''POST'' [(''action'', ''state'')] sampleBody countingWorld))
              ''session:k2j8x0q7w1mz4p9d6v3nt'' = Some s')"
proof -
  have h5: "store countingWorld (sessionKey sampleEnv (Some (JStr ''k2j8x0q7w1mz4p9d6v3nt''))) = Some countingSession"
    by (simp add: countingWorld_def sample_key)
  have h6: "truthy (countdownActive countingSession)" by (simp add: countingSession_def)
  have h7: "countdownStartTime countingSession = TimeAt 1699999996000" by (simp add: countingSession_def)
  have h8: "(1699999996000 :: int) \<noteq> 0" by simp
  have v: "max 0 (3 - (Date_now sampleEnv - 1699999996000) div 1000) = 0"
    by (simp add: sampleEnv_def)
  from state_resolves_countdown [OF sample_ready(2) sample_action sample_parse sample_sessionId h5 h6 h7 h8]
  have c: "\<exists>s'. countdownValue s' = Some (JNum 0) \<and> countdownActive s' = Some (JBool False)
          \<and> readyToStart s' = Some (JBool True) \<and> countdownStartTime s' = TimeNull
          \<and> fst (handleRequest sampleEnv ''POST'' [(''action'', ''state'')] sampleBody countingWorld)
              = Inr \<lparr>statusCode = 200, headers = [(''Content-Type'', ''application/json'')],
              body = Json [(''success'', BVal (JBool True)), (''state'', BSession s')]\<rparr>
          \<and> store (snd (handleRequest sampleEnv ''POST'' [(''action'', ''state'')] sampleBody countingWorld))
              ''session:k2j8x0q7w1mz4p9d6v3nt'' = Some s'"
    unfolding v sample_key by auto
  from sample_ready(2) sample_action sample_parse sample_sessionId h5 h6 h7 h8 c
  show ?thesis by blast
qed

subsection \<open>Create, reset, join\<close>

text \<open>
  C5, as stated, fails in its first part: the identifier is not always fresh. It is the
  string that \<^verbatim>\<open>generateSessionId\<close> draws, and nothing compares it with the keys
  of the store. When the draw is the identifier of a game in progress (player 1 has two
  points), create answers with that identifier and the game is replaced by a new session.
\<close>

theorem create_overwrites_existing_session:
  "map_option p1Score (store busyWorld ''session:k2j8x0q7w1mz4p9d6v3nt'') = Some (Some (JNum 2))
   \<and> fst (handleRequest sampleEnv ''POST'' [(''action'', ''create'')] None busyWorld)
       = Inr \<lparr>statusCode = 200, headers = [(''Content-Type'', ''application/json'')],
              body = Json [(''sessionId'', BVal (JStr ''k2j8x0q7w1mz4p9d6v3nt'')), (''success'', BVal (JBool True))]\<rparr>
   \<and> map_option p1Score
        (store (snd (handleRequest sampleEnv ''POST'' [(''action'', ''create'')] None busyWorld))
           ''session:k2j8x0q7w1mz4p9d6v3nt'') = Some (Some (JNum 0))"
proof -
  have rd: "ready sampleEnv busyWorld"
    by (simp add: ready_def sampleEnv_def busyWorld_def liveWorld_def)
  have p: "parseBody sampleEnv None = Inr None" by (simp add: parseBody_def)
  have g: "generateSessionId sampleEnv = ''k2j8x0q7w1mz4p9d6v3nt''" by (simp add: sampleEnv_def)
  note r = post_create [OF rd sample_action p]
  show ?thesis
    by (simp add: r g jsonResponse_def newSession_def) (simp add: busyWorld_def)
qed

text \<open>
  C5, amended. A create call takes the identifier that \<^verbatim>\<open>generateSessionId\<close> draws,
  stores a session under it, leaving every other key of the store as it was, and returns
  the identifier with \<^verbatim>\<open>success: true\<close>. A state call for that identifier, made next,
  returns the stored session, in which the game is not started, there is no winner, both
  scores are 0, the ball is at (400, 300), player 1 is connected and player 2 is not.
  The identifier is fresh when the draw is not yet a key of the store.
\<close>

theorem create_then_read_back:
  assumes "ready e w" and "searchParamsGet query ''action'' = Some ''create''"
    and "parseBody e b = Inr rb"
    and "getFault e2 = NoFault" and "setExFault e2 = NoFault"
    and "searchParamsGet query2 ''action'' = Some ''state''"
  shows "\<exists>w1 s. handleRequest e ''POST'' query b w
               = (Inr \<lparr>statusCode = 200, headers = [(''Content-Type'', ''application/json'')],
              body = Json [(''sessionId'', BVal (JStr (generateSessionId e))), (''success'', BVal (JBool True))]\<rparr>, w1)
         \<and> store w1 = (store w)(''session:'' @ generateSessionId e \<mapsto> s)
         \<and> fst (handleRequest e2 ''POST'' query2
                  (Some (JObj [(''sessionId'', JStr (generateSessionId e))])) w1)
             = Inr \<lparr>statusCode = 200, headers = [(''Content-Type'', ''application/json'')],
              body = Json [(''success'', BVal (JBool True)), (''state'', BSession s)]\<rparr>
         \<and> gameStarted s = Some (JBool False) \<and> winner s = Some JNull
         \<and> p1Score s = Some (JNum 0) \<and> p2Score s = Some (JNum 0)
         \<and> ballX s = Some (JNum 400) \<and> ballY s = Some (JNum 300)
         \<and> p1Connected s \<and> \<not> p2Connected s"
proof -
  let ?s = "(newSession (Date_now e))\<lparr>lastUpdate := Date_now_setSession e\<rparr>"
  let ?w1 = "(withClient w)\<lparr>store := (store w)(''session:'' @ generateSessionId e \<mapsto> ?s)\<rparr>"
  let ?b2 = "Some (JObj [(''sessionId'', JStr (generateSessionId e))])"
  have ready2: "ready e2 ?w1"
    using assms(1,4,5) by (simp add: ready_def withClient_simps)
  have p: "parseBody e2 ?b2 = Inr ?b2" by (simp add: parseBody_def)
  have i: "readSessionId e2 ?b2 = Inr (Some (JStr (generateSessionId e)))"
    by (simp add: readSessionId_def)
  have k: "store ?w1 (sessionKey e2 (Some (JStr (generateSessionId e)))) = Some ?s"
    by (simp add: sessionKey_def)
  have "fst (handleRequest e2 ''POST'' query2 ?b2 ?w1) = Inr (stateResponse ?s)"
    using post_state [OF ready2 assms(6) p i k] by (simp add: newSession_def)
  then have r2: "fst (handleRequest e2 ''POST'' query2 ?b2 ?w1)
      = Inr \<lparr>statusCode = 200, headers = [(''Content-Type'', ''application/json'')],
              body = Json [(''success'', BVal (JBool True)), (''state'', BSession ?s)]\<rparr>"
    by (simp add: stateResponse_def jsonResponse_def)
  have f: "gameStarted ?s = Some (JBool False) \<and> winner ?s = Some JNull
               \<and> p1Score ?s = Some (JNum 0) \<and> p2Score ?s = Some (JNum 0)
               \<and> ballX ?s = Some (JNum 400) \<and> ballY ?s = Some (JNum 300)
               \<and> p1Connected ?s \<and> \<not> p2Connected ?s"
    by (simp add: newSession_def)
  have r1: "handleRequest e ''POST'' query b w
      = (Inr \<lparr>statusCode = 200, headers = [(''Content-Type'', ''application/json'')],
              body = Json [(''sessionId'', BVal (JStr (generateSessionId e))), (''success'', BVal (JBool True))]\<rparr>, ?w1)"
    using post_create [OF assms(1-3)] by (simp add: jsonResponse_def)
  have st: "store ?w1 = (store w)(''session:'' @ generateSessionId e \<mapsto> ?s)" by simp
  from r1 st r2 f show ?thesis by blast
qed

theorem create_then_read_back_witness:
  "ready sampleEnv initialWorld
   \<and> searchParamsGet [(''action'', ''create'')] ''action'' = Some ''create''
   \<and> parseBody sampleEnv None = Inr None
   \<and> getFault sampleEnv = NoFault \<and> setExFault sampleEnv = NoFault
   \<and> searchParamsGet [(''action'', ''state'')] ''action'' = Some ''state''
   \<and> (\<exists>w1 s. handleRequest sampleEnv ''POST'' [(''action'', ''create'')] None initialWorld
               = (Inr \<lparr>statusCode = 200, headers = [(''Content-Type'', ''application/json'')],
              body = Json [(''sessionId'', BVal (JStr (generateSessionId sampleEnv))), (''success'', BVal (JBool True))]\<rparr>, w1)
         \<and> store w1 = (store initialWorld)(''session:'' @ generateSessionId sampleEnv \<mapsto> s)
         \<and> fst (handleRequest sampleEnv ''POST'' [(''action'', ''state'')]
                  (Some (JObj [(''sessionId'', JStr (generateSessionId sampleEnv))])) w1)
             = Inr \<lparr>statusCode = 200, headers = [(''Content-Type'', ''application/json'')],
              body = Json [(''success'', BVal (JBool True)), (''state'', BSession s)]\<rparr>
         \<and> gameStarted s = Some (JBool False) \<and> winner s = Some JNull)"
proof -
  have p: "parseBody sampleEnv None = Inr None" by (simp add: parseBody_def)
  have f: "getFault sampleEnv = NoFault" "setExFault sampleEnv = NoFault"
    by (simp_all add: sampleEnv_def)
  from create_then_read_back [OF sample_ready(3) sample_action p f sample_action]
  have c: "\<exists>w1 s. handleRequest sampleEnv ''POST'' [(''action'', ''create'')] None initialWorld
               = (Inr \<lparr>statusCode = 200, headers = [(''Content-Type'', ''application/json'')],
              body = Json [(''sessionId'', BVal (JStr (generateSessionId sampleEnv))), (''success'', BVal (JBool True))]\<rparr>, w1)
         \<and> store w1 = (store initialWorld)(''session:'' @ generateSessionId sampleEnv \<mapsto> s)
         \<and> fst (handleRequest sampleEnv ''POST'' [(''action'', ''state'')]
                  (Some (JObj [(''sessionId'', JStr (generateSessionId sampleEnv))])) w1)
             = Inr \<lparr>statusCode = 200, headers = [(''Content-Type'', ''application/json'')],
              body = Json [(''success'', BVal (JBool True)), (''state'', BSession s)]\<rparr>
         \<and> gameStarted s = Some (JBool False) \<and> winner s = Some JNull"
    by blast
  from sample_ready(3) sample_action p f c show ?thesis by blast
qed

text \<open>
  C6. Reset gives the ball position, velocity and speed multiplier, both scores, the
  winner and \<^verbatim>\<open>gameStarted\<close> the values that a new session has, arms the countdown
  (active, value 3, start time now), clears \<^verbatim>\<open>readyToStart\<close> and stores the session.
\<close>

theorem reset_restores_initial_values:
  assumes "ready e w" and "searchParamsGet query ''action'' = Some ''reset''"
    and "parseBody e b = Inr rb" and "readSessionId e rb = Inr sid"
    and "store w (sessionKey e sid) = Some s"
  shows "\<exists>s'. fst (handleRequest e ''POST'' query b w)
               = Inr \<lparr>statusCode = 200, headers = [(''Content-Type'', ''application/json'')],
              body = Json [(''success'', BVal (JBool True))]\<rparr>
           \<and> store (snd (handleRequest e ''POST'' query b w)) (sessionKey e sid) = Some s'
           \<and> ballX s' = ballX (newSession n) \<and> ballY s' = ballY (newSession n)
           \<and> ballVelX s' = ballVelX (newSession n) \<and> ballVelY s' = ballVelY (newSession n)
           \<and> ballSpeedMultiplier s' = ballSpeedMultiplier (newSession n)
           \<and> p1Score s' = p1Score (newSession n) \<and> p2Score s' = p2Score (newSession n)
           \<and> winner s' = winner (newSession n) \<and> gameStarted s' = gameStarted (newSession n)
           \<and> countdownActive s' = Some (JBool True) \<and> countdownValue s' = Some (JNum 3)
           \<and> countdownStartTime s' = TimeAt (Date_now e)
           \<and> readyToStart s' = Some (JBool False)"
proof -
  let ?s' = "(resetFields (Date_now e) s)\<lparr>lastUpdate := Date_now_setSession e\<rparr>"
  have r: "handleRequest e ''POST'' query b w =
      (Inr successResponse, (withClient w)\<lparr>store := (store w)(sessionKey e sid \<mapsto> ?s')\<rparr>)"
    by (rule post_reset [OF assms])
  have stored: "store (snd (handleRequest e ''POST'' query b w)) (sessionKey e sid) = Some ?s'"
    by (simp add: r)
  have ball: "ballX ?s' = ballX (newSession n) \<and> ballY ?s' = ballY (newSession n)
      \<and> ballVelX ?s' = ballVelX (newSession n) \<and> ballVelY ?s' = ballVelY (newSession n)
      \<and> ballSpeedMultiplier ?s' = ballSpeedMultiplier (newSession n)"
    by (simp add: resetFields_def newSession_def)
  have score: "p1Score ?s' = p1Score (newSession n) \<and> p2Score ?s' = p2Score (newSession n)
      \<and> winner ?s' = winner (newSession n) \<and> gameStarted ?s' = gameStarted (newSession n)"
    by (simp add: resetFields_def newSession_def)
  have countdown: "countdownActive ?s' = Some (JBool True) \<and> countdownValue ?s' = Some (JNum 3)
      \<and> countdownStartTime ?s' = TimeAt (Date_now e) \<and> readyToStart ?s' = Some (JBool False)"
    by (simp add: resetFields_def)
  have "fst (handleRequest e ''POST'' query b w)
               = Inr \<lparr>statusCode = 200, headers = [(''Content-Type'', ''application/json'')],
              body = Json [(''success'', BVal (JBool True))]\<rparr>"
    by (simp add: r successResponse_def jsonResponse_def)
  with stored ball score countdown show ?thesis by blast
qed

theorem reset_restores_initial_values_witness:
  "ready sampleEnv liveWorld
   \<and> searchParamsGet [(''action'', ''reset'')] ''action'' = Some ''reset''
   \<and> parseBody sampleEnv sampleBody = Inr sampleBody
   \<and> readSessionId sampleEnv sampleBody = Inr (Some (JStr ''k2j8x0q7w1mz4p9d6v3nt''))
   \<and> store liveWorld (sessionKey sampleEnv (Some (JStr ''k2j8x0q7w1mz4p9d6v3nt''))) = Some (newSession 1699999990000)
   \<and> (\<exists>s'. store (snd (handleRequest sampleEnv ''POST'' [(''action'', ''reset'')] sampleBody liveWorld))
              (sessionKey sampleEnv (Some (JStr ''k2j8x0q7w1mz4p9d6v3nt''))) = Some s'
          \<and> countdownActive s' = Some (JBool True) \<and> countdownValue s' = Some (JNum 3)
          \<and> countdownStartTime s' = TimeAt (Date_now sampleEnv))"
proof -
  have h5: "store liveWorld (sessionKey sampleEnv (Some (JStr ''k2j8x0q7w1mz4p9d6v3nt''))) = Some (newSession 1699999990000)"
    by (simp add: liveWorld_def sample_key)
  from reset_restores_initial_values [OF sample_ready(1) sample_action sample_parse sample_sessionId h5, of 0]
  have c: "\<exists>s'. store (snd (handleRequest sampleEnv ''POST'' [(''action'', ''reset'')] sampleBody liveWorld))
              (sessionKey sampleEnv (Some (JStr ''k2j8x0q7w1mz4p9d6v3nt''))) = Some s'
          \<and> countdownActive s' = Some (JBool True) \<and> countdownValue s' = Some (JNum 3)
          \<and> countdownStartTime s' = TimeAt (Date_now sampleEnv)"
    by blast
  from sample_ready(1) sample_action sample_parse sample_sessionId h5 c
  show ?thesis by blast
qed

text \<open>
  C8. Two join calls for an existing session both get the 200 response with
  \<^verbatim>\<open>p2Connected: true\<close>; the session stored after the second call is the session
  stored after the first one, \<^verbatim>\<open>lastUpdate\<close> apart, and player 2 is connected in both.
\<close>

theorem join_is_idempotent:
  assumes "ready e1 w" and "getFault e2 = NoFault" and "setExFault e2 = NoFault"
    and "searchParamsGet query1 ''action'' = Some ''join''"
    and "searchParamsGet query2 ''action'' = Some ''join''"
    and "parseBody e1 b1 = Inr rb1" and "readSessionId e1 rb1 = Inr sid1"
    and "parseBody e2 b2 = Inr rb2" and "readSessionId e2 rb2 = Inr sid2"
    and "sessionKey e1 sid1 = k" and "sessionKey e2 sid2 = k"
    and "store w k = Some s"
  shows "\<exists>w1 w2 s1 s2.
           handleRequest e1 ''POST'' query1 b1 w
             = (Inr \<lparr>statusCode = 200, headers = [(''Content-Type'', ''application/json'')],
              body = Json [(''success'', BVal (JBool True)), (''p2Connected'', BVal (JBool True))]\<rparr>, w1)
         \<and> handleRequest e2 ''POST'' query2 b2 w1
             = (Inr \<lparr>statusCode = 200, headers = [(''Content-Type'', ''application/json'')],
              body = Json [(''success'', BVal (JBool True)), (''p2Connected'', BVal (JBool True))]\<rparr>, w2)
         \<and> store w1 k = Some s1 \<and> store w2 k = Some s2
         \<and> p2Connected s1 \<and> p2Connected s2
         \<and> s2 = s1\<lparr>lastUpdate := lastUpdate s2\<rparr>
         \<and> store w2 = (store w1)(k \<mapsto> s2)"
proof -
  let ?s1 = "s\<lparr>p2Connected := True, lastUpdate := Date_now_setSession e1\<rparr>"
  let ?w1 = "(withClient w)\<lparr>store := (store w)(k \<mapsto> ?s1)\<rparr>"
  let ?s2 = "?s1\<lparr>p2Connected := True, lastUpdate := Date_now_setSession e2\<rparr>"
  let ?w2 = "(withClient ?w1)\<lparr>store := (store ?w1)(k \<mapsto> ?s2)\<rparr>"
  have s: "store w (sessionKey e1 sid1) = Some s" using assms(10,12) by simp
  have r1: "handleRequest e1 ''POST'' query1 b1 w
      = (Inr \<lparr>statusCode = 200, headers = [(''Content-Type'', ''application/json'')],
              body = Json [(''success'', BVal (JBool True)), (''p2Connected'', BVal (JBool True))]\<rparr>, ?w1)"
    using post_join [OF assms(1) assms(4) assms(6) assms(7) s] assms(10)
    by (simp add: jsonResponse_def)
  have ready2: "ready e2 ?w1"
    using assms(1,2,3) by (simp add: ready_def withClient_simps)
  have s1: "store ?w1 (sessionKey e2 sid2) = Some ?s1" using assms(11) by simp
  have r2: "handleRequest e2 ''POST'' query2 b2 ?w1
      = (Inr \<lparr>statusCode = 200, headers = [(''Content-Type'', ''application/json'')],
              body = Json [(''success'', BVal (JBool True)), (''p2Connected'', BVal (JBool True))]\<rparr>, ?w2)"
    using post_join [OF ready2 assms(5) assms(8) assms(9) s1] assms(11)
    by (simp add: jsonResponse_def)
  have a1: "store ?w1 k = Some ?s1" and a2: "store ?w2 k = Some ?s2" by simp_all
  have c: "p2Connected ?s1" "p2Connected ?s2" "?s2 = ?s1\<lparr>lastUpdate := lastUpdate ?s2\<rparr>"
    by simp_all
  have m: "store ?w2 = (store ?w1)(k \<mapsto> ?s2)" by (simp add: withClient_simps)
  from r1 r2 a1 a2 c m show ?thesis by blast
qed

theorem join_is_idempotent_witness:
  "ready sampleEnv liveWorld \<and> getFault sampleEnv = NoFault \<and> setExFault sampleEnv = NoFault
   \<and> searchParamsGet [(''action'', ''join'')] ''action'' = Some ''join''
   \<and> parseBody sampleEnv sampleBody = Inr sampleBody
   \<and> readSessionId sampleEnv sampleBody = Inr (Some (JStr ''k2j8x0q7w1mz4p9d6v3nt''))
   \<and> sessionKey sampleEnv (Some (JStr ''k2j8x0q7w1mz4p9d6v3nt'')) = ''session:k2j8x0q7w1mz4p9d6v3nt''
   \<and> store liveWorld ''session:k2j8x0q7w1mz4p9d6v3nt'' = Some (newSession 1699999990000)
   \<and> (\<exists>w1 w2 s1 s2.
           handleRequest sampleEnv ''POST'' [(''action'', ''join'')] sampleBody liveWorld
             = (Inr \<lparr>statusCode = 200, headers = [(''Content-Type'', ''application/json'')],
              body = Json [(''success'', BVal (JBool True)), (''p2Connected'', BVal (JBool True))]\<rparr>, w1)
         \<and> handleRequest sampleEnv ''POST'' [(''action'', ''join'')] sampleBody w1
             = (Inr \<lparr>statusCode = 200, headers = [(''Content-Type'', ''application/json'')],
              body = Json [(''success'', BVal (JBool True)), (''p2Connected'', BVal (JBool True))]\<rparr>, w2)
         \<and> store w1 ''session:k2j8x0q7w1mz4p9d6v3nt'' = Some s1
         \<and> store w2 ''session:k2j8x0q7w1mz4p9d6v3nt'' = Some s2
         \<and> p2Connected s1 \<and> p2Connected s2 \<and> s2 = s1\<lparr>lastUpdate := lastUpdate s2\<rparr>)"
proof -
  have f: "getFault sampleEnv = NoFault" "setExFault sampleEnv = NoFault"
    by (simp_all add: sampleEnv_def)
  have h: "store liveWorld ''session:k2j8x0q7w1mz4p9d6v3nt'' = Some (newSession 1699999990000)"
    by (simp add: liveWorld_def)
  from join_is_idempotent [OF sample_ready(1) f sample_action sample_action
      sample_parse sample_sessionId sample_parse sample_sessionId sample_key sample_key h]
  have c: "\<exists>w1 w2 s1 s2.
           handleRequest sampleEnv ''POST'' [(''action'', ''join'')] sampleBody liveWorld
             = (Inr \<lparr>statusCode = 200, headers = [(''Content-Type'', ''application/json'')],
              body = Json [(''success'', BVal (JBool True)), (''p2Connected'', BVal (JBool True))]\<rparr>, w1)
         \<and> handleRequest sampleEnv ''POST'' [(''action'', ''join'')] sampleBody w1
             = (Inr \<lparr>statusCode = 200, headers = [(''Content-Type'', ''application/json'')],
              body = Json [(''success'', BVal (JBool True)), (''p2Connected'', BVal (JBool True))]\<rparr>, w2)
         \<and> store w1 ''session:k2j8x0q7w1mz4p9d6v3nt'' = Some s1
         \<and> store w2 ''session:k2j8x0q7w1mz4p9d6v3nt'' = Some s2
         \<and> p2Connected s1 \<and> p2Connected s2 \<and> s2 = s1\<lparr>lastUpdate := lastUpdate s2\<rparr>"
    by blast
  from sample_ready(1) f sample_action sample_parse sample_sessionId sample_key h c
  show ?thesis by blast
qed

subsection \<open>Update\<close>

lemma update_steps:
  "updatePaddle b s =
     s\<lparr>p1Y := if bodyProp b ''player'' = Some (JNum 1)
               then patch (bodyProp b ''paddleY'') (p1Y s) else p1Y s,
       p2Y := if bodyProp b ''player'' = Some (JNum 2)
               then patch (bodyProp b ''paddleY'') (p2Y s) else p2Y s\<rparr>"
  "updateBall b s =
     s\<lparr>ballX := patch (bodyProp b ''ballX'') (ballX s),
       ballY := if bodyProp b ''ballX'' \<noteq> None then bodyProp b ''ballY'' else ballY s,
       ballVelX := if bodyProp b ''ballX'' \<noteq> None then bodyProp b ''ballVelX'' else ballVelX s,
       ballVelY := if bodyProp b ''ballX'' \<noteq> None then bodyProp b ''ballVelY'' else ballVelY s\<rparr>"
  "updateBallSpeedMultiplier b s =
     s\<lparr>ballSpeedMultiplier := patch (bodyProp b ''ballSpeedMultiplier'') (ballSpeedMultiplier s)\<rparr>"
  "updateP1Score b s = s\<lparr>p1Score := patch (bodyProp b ''p1Score'') (p1Score s)\<rparr>"
  "updateP2Score b s = s\<lparr>p2Score := patch (bodyProp b ''p2Score'') (p2Score s)\<rparr>"
  "updateWinner b s = s\<lparr>winner := patch (bodyProp b ''winner'') (winner s)\<rparr>"
  "updateCountdownActive b s =
     s\<lparr>countdownActive := patch (bodyProp b ''countdownActive'') (countdownActive s),
       readyToStart := if bodyProp b ''countdownActive'' = Some (JBool False)
                          \<and> bodyProp b ''countdownValue'' = Some (JNum 0)
                       then Some (JBool True) else readyToStart s\<rparr>"
  "updateCountdownValue b s = s\<lparr>countdownValue := patch (bodyProp b ''countdownValue'') (countdownValue s)\<rparr>"
  "updateGameStarted b s = s\<lparr>gameStarted := patch (bodyProp b ''gameStarted'') (gameStarted s)\<rparr>"
  "updateReadyToStart b s = s\<lparr>readyToStart := patch (bodyProp b ''readyToStart'') (readyToStart s)\<rparr>"
  by (simp_all add: updatePaddle_def updateBall_def updateBallSpeedMultiplier_def
        updateP1Score_def updateP2Score_def updateWinner_def updateCountdownActive_def
        updateCountdownValue_def updateGameStarted_def updateReadyToStart_def patch_def Let_def
        split: option.splits)


lemma updateFields_winner:
  "winner (updateFields b s) = patch (bodyProp b ''winner'') (winner s)"
  by (simp add: updateFields_def Let_def update_steps)




text \<open>
  C7. An update whose body has exactly the properties \<^verbatim>\<open>sessionId\<close>,
  \<^verbatim>\<open>player: 2\<close> and \<^verbatim>\<open>paddleY: 150\<close> stores the session it found with
  \<^verbatim>\<open>p2Y\<close> set to 150 and \<^verbatim>\<open>lastUpdate\<close> stamped, and nothing else changed; the
  other keys of the store are as before.
\<close>

theorem paddle_update_changes_only_p2Y:
  assumes "ready e w" and "searchParamsGet query ''action'' = Some ''update''"
    and "parseBody e b = Inr (Some (JObj kvs))"
    and "map_of kvs = [''sessionId'' \<mapsto> sid, ''player'' \<mapsto> JNum 2, ''paddleY'' \<mapsto> JNum 150]"
    and "store w (sessionKey e (Some sid)) = Some s"
  shows "fst (handleRequest e ''POST'' query b w)
           = Inr \<lparr>statusCode = 200, headers = [(''Content-Type'', ''application/json'')],
              body = Json [(''success'', BVal (JBool True))]\<rparr>
       \<and> store (snd (handleRequest e ''POST'' query b w))
           = (store w)(sessionKey e (Some sid) \<mapsto>
                s\<lparr>p2Y := Some (JNum 150), lastUpdate := Date_now_setSession e\<rparr>)"
proof -
  have sid: "readSessionId e (Some (JObj kvs)) = Inr (Some sid)"
    by (simp add: readSessionId_def assms(4))
  have u: "updateFields (Some (JObj kvs)) s = s\<lparr>p2Y := Some (JNum 150)\<rparr>"
    by (simp add: updateFields_def updatePaddle_def updateBall_def updateBallSpeedMultiplier_def
        updateP1Score_def updateP2Score_def updateWinner_def updateCountdownActive_def
        updateCountdownValue_def updateGameStarted_def updateReadyToStart_def
        bodyProp_def assms(4))
  show ?thesis
    by (simp add: post_update [OF assms(1-3) sid assms(5)] u successResponse_def jsonResponse_def)
qed

theorem paddle_update_changes_only_p2Y_witness:
  "ready sampleEnv liveWorld
   \<and> searchParamsGet [(''action'', ''update'')] ''action'' = Some ''update''
   \<and> parseBody sampleEnv (Some (JObj paddleBody)) = Inr (Some (JObj paddleBody))
   \<and> map_of paddleBody = [''sessionId'' \<mapsto> JStr ''k2j8x0q7w1mz4p9d6v3nt'', ''player'' \<mapsto> JNum 2, ''paddleY'' \<mapsto> JNum 150]
   \<and> store liveWorld (sessionKey sampleEnv (Some (JStr ''k2j8x0q7w1mz4p9d6v3nt''))) = Some (newSession 1699999990000)
   \<and> store (snd (handleRequest sampleEnv ''POST'' [(''action'', ''update'')] (Some (JObj paddleBody)) liveWorld))
       = (store liveWorld)(sessionKey sampleEnv (Some (JStr ''k2j8x0q7w1mz4p9d6v3nt'')) \<mapsto>
            (newSession 1699999990000)\<lparr>p2Y := Some (JNum 150), lastUpdate := Date_now_setSession sampleEnv\<rparr>)"
proof -
  have h3: "parseBody sampleEnv (Some (JObj paddleBody)) = Inr (Some (JObj paddleBody))"
    by (simp add: parseBody_def)
  have h4: "map_of paddleBody = [''sessionId'' \<mapsto> JStr ''k2j8x0q7w1mz4p9d6v3nt'', ''player'' \<mapsto> JNum 2, ''paddleY'' \<mapsto> JNum 150]"
    by (auto simp: paddleBody_def fun_eq_iff)
  have h5: "store liveWorld (sessionKey sampleEnv (Some (JStr ''k2j8x0q7w1mz4p9d6v3nt''))) = Some (newSession 1699999990000)"
    by (simp add: liveWorld_def sample_key)
  from paddle_update_changes_only_p2Y [OF sample_ready(1) sample_action h3 h4 h5]
  have c: "store (snd (handleRequest sampleEnv ''POST'' [(''action'', ''update'')] (Some (JObj paddleBody)) liveWorld))
       = (store liveWorld)(sessionKey sampleEnv (Some (JStr ''k2j8x0q7w1mz4p9d6v3nt'')) \<mapsto>
            (newSession 1699999990000)\<lparr>p2Y := Some (JNum 150), lastUpdate := Date_now_setSession sampleEnv\<rparr>)"
    by blast
  from sample_ready(1) sample_action h3 h4 h5 c show ?thesis by blast
qed




subsection \<open>The winner\<close>

text \<open>What the helpers and the handlers do to the keys of the store, whatever the environment does.\<close>

lemma getRedisClient_store: "getRedisClient e w = (r, w1) \<Longrightarrow> store w1 = store w"
  by (auto simp: getRedisClient_def onConnect_def Let_def split: if_splits connect_outcome.splits)

lemma redisCommand_store: "redisCommand f w = (r, w1) \<Longrightarrow> store w1 = store w"
  by (auto simp: redisCommand_def onError_def split: redis_fault.splits)

lemma ensureRedisAvailable_store: "ensureRedisAvailable e w = (r, w1) \<Longrightarrow> store w1 = store w"
  by (auto simp: ensureRedisAvailable_def split: prod.splits sum.splits if_splits
      dest: getRedisClient_store)

lemma getSession_store:
  assumes "getSession e sid w = (r, w1)"
  shows "store w1 = store w" and "r = Inr (Some s) \<Longrightarrow> store w (sessionKey e sid) = Some s"
  using assms
  by (auto simp: getSession_def split: prod.splits sum.splits
      dest!: getRedisClient_store redisCommand_store)

lemma setSession_store:
  assumes "setSession e sid s w = (r, w1)"
  shows "store w1 = store w
       \<or> store w1 = (store w)(sessionKey e sid \<mapsto> s\<lparr>lastUpdate := Date_now_setSession e\<rparr>)"
  using assms
  by (auto simp: setSession_def Let_def split: prod.splits sum.splits
      dest!: getRedisClient_store redisCommand_store)

lemma storeInv_set:
  assumes "storeInv P w" and "setSession e sid s w = (r, w1)"
    and "P (s\<lparr>lastUpdate := Date_now_setSession e\<rparr>)"
  shows "storeInv P w1"
  using setSession_store [OF assms(2)] assms(1,3)
  by (auto simp: storeInv_def split: if_splits)

lemma storeInv_get:
  assumes "storeInv P w" and "getSession e sid w = (r, w1)"
  shows "storeInv P w1" and "r = Inr (Some s) \<Longrightarrow> P s"
  using getSession_store [OF assms(2)] assms(1)
  by (auto simp: storeInv_def)

lemma storeInv_mono: "storeInv P w \<Longrightarrow> (\<And>s. P s \<Longrightarrow> Q s) \<Longrightarrow> storeInv Q w"
  by (auto simp: storeInv_def)

lemma winnerFrom_lastUpdate [simp]: "winnerFrom V (s\<lparr>lastUpdate := t\<rparr>) = winnerFrom V s"
  by (simp add: winnerFrom_def)

lemma winnerFrom_mono: "winnerFrom V s \<Longrightarrow> V \<subseteq> V' \<Longrightarrow> winnerFrom V' s"
  by (auto simp: winnerFrom_def)

text \<open>
  A handler that loads a session, changes it by \<open>f\<close> and stores it: what holds of every
  stored session before and is kept by \<open>f\<close> holds of every stored session after.
\<close>

lemma load_change_store:
  assumes inv: "storeInv P w"
    and weaken: "\<And>s. P s \<Longrightarrow> Q s"
    and keep: "\<And>s. P s \<Longrightarrow> Q ((f s)\<lparr>lastUpdate := Date_now_setSession e\<rparr>)"
    and h: "h = (case readSessionId e b of
                   Inl err \<Rightarrow> (Inl err, w)
                 | Inr sid \<Rightarrow>
                     (case getSession e sid w of
                        (Inl err, w1) \<Rightarrow> (Inl err, w1)
                      | (Inr None, w1) \<Rightarrow> (Inr notFound, w1)
                      | (Inr (Some session), w1) \<Rightarrow>
                          (case setSession e sid (f session) w1 of
                             (Inl err, w2) \<Rightarrow> (Inl err, w2)
                           | (Inr stored, w2) \<Rightarrow> (Inr (g stored), w2))))"
  shows "storeInv Q (snd h)"
proof (cases "readSessionId e b")
  case (Inl err)
  have "storeInv Q w" using inv weaken by (auto simp: storeInv_def)
  then show ?thesis using Inl by (simp add: h)
next
  case (Inr sid)
  obtain r w1 where g: "getSession e sid w = (r, w1)" by force
  note i1 = storeInv_get [OF inv g]
  have q1: "storeInv Q w1" using i1(1) weaken by (auto simp: storeInv_def)
  show ?thesis
  proof (cases r)
    case (Inl err)
    then show ?thesis using Inr g q1 by (simp add: h)
  next
    case r: (Inr so)
    show ?thesis
    proof (cases so)
      case None
      then show ?thesis using Inr g r q1 by (simp add: h)
    next
      case (Some s)
      obtain r2 w2 where st: "setSession e sid (f s) w1 = (r2, w2)" by force
      have "P s" using i1(2) r Some by simp
      then have "Q ((f s)\<lparr>lastUpdate := Date_now_setSession e\<rparr>)" by (rule keep)
      from storeInv_set [OF q1 st this] have "storeInv Q w2" .
      then show ?thesis
        using Inr g r Some st by (auto simp: h split: sum.splits)
    qed
  qed
qed

lemma handleCreate_winner:
  assumes "storeInv (winnerFrom V) w"
  shows "storeInv (winnerFrom V) (snd (handleCreate e w))"
proof -
  obtain r w1 where s: "setSession e (Some (JStr (generateSessionId e))) (newSession (Date_now e)) w = (r, w1)"
    by force
  have "winnerFrom V ((newSession (Date_now e))\<lparr>lastUpdate := Date_now_setSession e\<rparr>)"
    by (simp add: winnerFrom_def newSession_def)
  from storeInv_set [OF assms s this] have "storeInv (winnerFrom V) w1" .
  then show ?thesis
    using s by (auto simp: handleCreate_def Let_def split: sum.splits)
qed

lemma handleJoin_winner:
  assumes "storeInv (winnerFrom V) w"
  shows "storeInv (winnerFrom V) (snd (handleJoin e b w))"
  by (rule load_change_store [OF assms _ _ handleJoin_def]) (simp_all add: winnerFrom_def)

lemma handleStart_winner:
  assumes "storeInv (winnerFrom V) w"
  shows "storeInv (winnerFrom V) (snd (handleStart e b w))"
  by (rule load_change_store [OF assms _ _ handleStart_def]) (simp_all add: winnerFrom_def)

lemma handleReset_winner:
  assumes "storeInv (winnerFrom V) w"
  shows "storeInv (winnerFrom V) (snd (handleReset e b w))"
  by (rule load_change_store [OF assms _ _ handleReset_def])
     (simp_all add: winnerFrom_def resetFields_def)

lemma handleUpdate_winner:
  assumes "storeInv (winnerFrom V) w"
  shows "storeInv (winnerFrom (insert (bodyProp b ''winner'') V)) (snd (handleUpdate e b w))"
  by (rule load_change_store [OF assms _ _ handleUpdate_def])
     (auto simp: winnerFrom_def updateFields_winner patch_def split: option.splits)

lemma countdownFields_winner [simp]: "winner (countdownFields now t s) = winner s"
  by (simp add: countdownFields_def Let_def)

lemma handleState_winner:
  assumes "storeInv (winnerFrom V) w"
  shows "storeInv (winnerFrom V) (snd (handleState e b w))"
proof (cases "readSessionId e b")
  case (Inl err)
  then show ?thesis using assms by (simp add: handleState_def)
next
  case (Inr sid)
  obtain r w1 where g: "getSession e sid w = (r, w1)" by force
  note i1 = storeInv_get [OF assms g]
  show ?thesis
  proof (cases r)
    case (Inl err)
    then show ?thesis using Inr g i1(1) by (simp add: handleState_def)
  next
    case r: (Inr so)
    show ?thesis
    proof (cases so)
      case None
      then show ?thesis using Inr g r i1(1) by (simp add: handleState_def)
    next
      case (Some s)
      have ps: "winnerFrom V s" using i1(2) r Some by simp
      show ?thesis
      proof (cases "countdownStartTime s")
        case (TimeAt t)
        obtain r2 w2 where st: "setSession e sid (countdownFields (Date_now e) t s) w1 = (r2, w2)"
          by force
        have "winnerFrom V ((countdownFields (Date_now e) t s)\<lparr>lastUpdate := Date_now_setSession e\<rparr>)"
          using ps by (simp add: winnerFrom_def)
        from storeInv_set [OF i1(1) st this] have "storeInv (winnerFrom V) w2" .
        then show ?thesis
          using Inr g r Some st TimeAt i1(1) by (auto simp: handleState_def split: sum.splits)
      qed (use Inr g r Some i1(1) in \<open>simp_all add: handleState_def\<close>)
    qed
  qed
qed

lemma dispatch_winner:
  assumes "storeInv (winnerFrom V) w"
  shows "storeInv (winnerFrom (insert (if action = Some ''update''
                                       then bodyProp rb ''winner'' else None) V))
           (snd (dispatch e action rb w))"
proof (cases "action = Some ''update''")
  case True
  then show ?thesis
    using handleUpdate_winner [OF assms, of rb e] by (simp add: dispatch_def)
next
  case False
  have up: "\<And>w'. storeInv (winnerFrom V) w' \<Longrightarrow> storeInv (winnerFrom (insert None V)) w'"
    by (erule storeInv_mono) (auto elim: winnerFrom_mono)
  show ?thesis
    using False up [OF handleCreate_winner [OF assms, of e]]
      up [OF handleJoin_winner [OF assms, of e rb]]
      up [OF handleStart_winner [OF assms, of e rb]]
      up [OF handleReset_winner [OF assms, of e rb]]
      up [OF handleState_winner [OF assms, of e rb]]
      up [OF assms]
    by (simp add: dispatch_def)
qed

lemma handleRequest_winner:
  assumes "storeInv (winnerFrom V) w"
  shows "storeInv (winnerFrom (insert (suppliedWinner (e, method, query, b)) V))
           (snd (handleRequest e method query b w))"
proof (cases "method = ''POST''")
  case True
  let ?V = "insert (suppliedWinner (e, method, query, b)) V"
  obtain r w1 where en: "ensureRedisAvailable e w = (r, w1)" by force
  have "store w1 = store w" by (rule ensureRedisAvailable_store [OF en])
  then have i1: "storeInv (winnerFrom V) w1" using assms by (simp add: storeInv_def)
  have up: "\<And>w'. storeInv (winnerFrom V) w' \<Longrightarrow> storeInv (winnerFrom ?V) w'"
    by (erule storeInv_mono) (auto elim: winnerFrom_mono)
  show ?thesis
  proof (cases r)
    case (Inl err)
    then show ?thesis using True en up [OF i1] by (simp add: handleRequest_def)
  next
    case r: (Inr ro)
    show ?thesis
    proof (cases ro)
      case (Some resp)
      then show ?thesis using True en r up [OF i1] by (simp add: handleRequest_def)
    next
      case None
      show ?thesis
      proof (cases "parseBody e b")
        case (Inl err)
        then show ?thesis using True en r None up [OF i1] by (simp add: handleRequest_def)
      next
        case (Inr rb)
        have u: "suppliedWinner (e, ''POST'', query, b)
            = (if searchParamsGet query ''action'' = Some ''update''
               then bodyProp rb ''winner'' else None)"
          using Inr by (simp add: suppliedWinner_def)
        show ?thesis
          using True en r None Inr
            dispatch_winner [OF i1, of "searchParamsGet query ''action''" rb e]
          by (simp add: handleRequest_def u)
      qed
    qed
  qed
next
  case False
  then have "snd (handleRequest e method query b w) = w"
    by (simp add: handleRequest_def Let_def)
  then show ?thesis
    using assms by (auto simp: storeInv_def winnerFrom_def)
qed

lemma run_winner:
  "storeInv (winnerFrom V) w \<Longrightarrow> storeInv (winnerFrom (V \<union> suppliedWinner ` set rs)) (run w rs)"
proof (induction rs arbitrary: w V)
  case Nil
  then show ?case by simp
next
  case (Cons r rs)
  obtain e m q b where r: "r = (e, m, q, b)" by (cases r) auto
  from Cons.IH [OF handleRequest_winner [OF Cons.prems, of e m q b]]
  show ?case by (simp add: r Un_commute insert_commute)
qed

lemma winnerGame_store:
  "store (run initialWorld winnerGame) ''session:k2j8x0q7w1mz4p9d6v3nt''
     = Some ((newSession 1700000000000)\<lparr>winner := Some (JNum 1), lastUpdate := 1700000000001\<rparr>)"
proof -
  let ?s1 = "(newSession (Date_now sampleEnv))\<lparr>lastUpdate := Date_now_setSession sampleEnv\<rparr>"
  let ?w1 = "(withClient initialWorld)\<lparr>store := (store initialWorld)(''session:'' @ generateSessionId sampleEnv \<mapsto> ?s1)\<rparr>"
  have p: "parseBody sampleEnv None = Inr None" by (simp add: parseBody_def)
  have c: "handleRequest sampleEnv ''POST'' [(''action'', ''create'')] None initialWorld
      = (Inr (jsonResponse 200 [(''sessionId'', BVal (JStr (generateSessionId sampleEnv))),
                                (''success'', BVal (JBool True))]), ?w1)"
    by (rule post_create [OF sample_ready(3) sample_action p])
  have ready1: "ready sampleEnv ?w1"
    using sample_ready(3) by (simp add: ready_def withClient_simps)
  have pb: "parseBody sampleEnv winnerBody = Inr winnerBody"
    and ib: "readSessionId sampleEnv winnerBody = Inr (Some (JStr ''k2j8x0q7w1mz4p9d6v3nt''))"
    by (simp_all add: parseBody_def readSessionId_def winnerBody_def)
  have g: "generateSessionId sampleEnv = ''k2j8x0q7w1mz4p9d6v3nt''" by (simp add: sampleEnv_def)
  have k: "store ?w1 (sessionKey sampleEnv (Some (JStr ''k2j8x0q7w1mz4p9d6v3nt''))) = Some ?s1"
    by (simp add: sample_key g)
  note u = post_update [OF ready1 sample_action pb ib k]
  have w: "winner (updateFields winnerBody ?s1) = Some (JNum 1)"
    by (simp add: updateFields_winner patch_def bodyProp_def winnerBody_def)
  have f: "updateFields winnerBody ?s1 = ?s1\<lparr>winner := Some (JNum 1)\<rparr>"
    by (simp add: updateFields_def Let_def update_steps patch_def bodyProp_def winnerBody_def)
  have "run initialWorld winnerGame
      = snd (handleRequest sampleEnv ''POST'' [(''action'', ''update'')] winnerBody ?w1)"
    by (simp only: winnerGame_def run.simps c snd_conv)
  also have "\<dots> = (withClient ?w1)\<lparr>store := (store ?w1)
      (sessionKey sampleEnv (Some (JStr ''k2j8x0q7w1mz4p9d6v3nt'')) \<mapsto>
        (updateFields winnerBody ?s1)\<lparr>lastUpdate := Date_now_setSession sampleEnv\<rparr>)\<rparr>"
    by (simp only: u snd_conv)
  finally show ?thesis
    by (simp add: f sample_key) (simp add: sampleEnv_def)
qed

text \<open>
  C4, as stated, fails. After a create and an update that carries only
  \<^verbatim>\<open>winner: 1\<close>, the stored session has winner 1 while both scores are 0, below
  \<^verbatim>\<open>WINNING_SCORE\<close>.
\<close>

theorem winner_without_winning_score:
  "map_option winner (store (run initialWorld winnerGame) ''session:k2j8x0q7w1mz4p9d6v3nt'')
     = Some (Some (JNum 1))
   \<and> map_option p1Score (store (run initialWorld winnerGame) ''session:k2j8x0q7w1mz4p9d6v3nt'')
     = Some (Some (JNum 0))
   \<and> map_option p2Score (store (run initialWorld winnerGame) ''session:k2j8x0q7w1mz4p9d6v3nt'')
     = Some (Some (JNum 0))
   \<and> \<not> 0 \<ge> WINNING_SCORE"
  by (simp add: winnerGame_store newSession_def WINNING_SCORE_def)

text \<open>
  C4, amended. In every store reached from the empty one by a sequence of requests, the
  winner of a session is not null only when an update request of the sequence supplied
  that very value as \<^verbatim>\<open>winner\<close>. The handlers do not look at the scores.
\<close>

theorem winner_is_what_an_update_supplied:
  assumes "store (run initialWorld rs) k = Some s" and "winner s \<noteq> Some JNull"
  shows "\<exists>r \<in> set rs. suppliedWinner r = winner s \<and> winner s \<noteq> None"
proof -
  have "storeInv (winnerFrom {}) initialWorld"
    by (simp add: storeInv_def initialWorld_def)
  from run_winner [OF this, of rs] assms(1)
  have "winnerFrom (suppliedWinner ` set rs) s" by (simp add: storeInv_def)
  then show ?thesis using assms(2) by (auto simp: winnerFrom_def)
qed

theorem winner_is_what_an_update_supplied_witness:
  "store (run initialWorld winnerGame) ''session:k2j8x0q7w1mz4p9d6v3nt''
     = Some ((newSession 1700000000000)\<lparr>winner := Some (JNum 1), lastUpdate := 1700000000001\<rparr>)
   \<and> winner ((newSession 1700000000000)\<lparr>winner := Some (JNum 1), lastUpdate := 1700000000001\<rparr>) \<noteq> Some JNull
   \<and> (\<exists>r \<in> set winnerGame. suppliedWinner r = Some (JNum 1))"
proof -
  have h2: "winner ((newSession 1700000000000)\<lparr>winner := Some (JNum 1), lastUpdate := 1700000000001\<rparr>) \<noteq> Some JNull"
    by simp
  from winner_is_what_an_update_supplied [OF winnerGame_store h2]
  have c: "\<exists>r \<in> set winnerGame. suppliedWinner r = Some (JNum 1)" by simp
  from winnerGame_store h2 c show ?thesis by blast
qed

end
